theory Spec2Isabelle
  imports Main "HOL-Library.Sublist"
begin

section \<open>Strings\<close>

text \<open>
  A Go string is a sequence of bytes; it is modelled as a \<^typ>\<open>string\<close>, a list of 8-bit
  characters. Text outside ASCII appears as its UTF-8 bytes (the prompt delimiter U+00BB is
  the two bytes C2 BB).
\<close>

subsection \<open>strings.Contains and the tag patterns\<close>

text \<open>
  \<open>cut sep s\<close> splits \<open>s\<close> around the first (leftmost) occurrence of \<open>sep\<close>: the text
  before it and the text after it. It is the search that \<open>strings.Contains\<close> and the
  literal parts of the tag patterns perform.
\<close>

fun cut :: "string \<Rightarrow> string \<Rightarrow> (string \<times> string) option" where
  "cut sep [] = (if sep = [] then Some ([], []) else None)"
| "cut sep (c # cs) =
     (if prefix sep (c # cs) then Some ([], drop (length sep) (c # cs))
      else map_option (\<lambda>(b, a). (c # b, a)) (cut sep cs))"

definition Contains :: "string \<Rightarrow> string \<Rightarrow> bool" where
  "Contains s substr = (cut substr s \<noteq> None)"

definition openTag :: "string \<Rightarrow> string" where
  "openTag name = ''<'' @ name @ ''>''"

definition closeTag :: "string \<Rightarrow> string" where
  "closeTag name = ''</'' @ name @ ''>''"

text \<open>
  \<open>FindStringSubmatch\<close> for the pattern \<^verbatim>\<open>(?s)<Name>(.*?)</Name>\<close>. The match is the
  leftmost one, so it starts at the first opening tag; the group is lazy and the dot matches
  newlines, so it ends at the first closing tag after that. The result is the captured
  group together with the text after the match; \<open>None\<close> when the pattern does not match.
\<close>

definition FindStringSubmatch :: "string \<Rightarrow> string \<Rightarrow> (string \<times> string) option" where
  "FindStringSubmatch name s =
     (case cut (openTag name) s of
        None \<Rightarrow> None
      | Some (before, rest) \<Rightarrow> cut (closeTag name) rest)"

lemma cut_length: "cut sep s = Some (b, a) \<Longrightarrow> length b + length sep + length a = length s"
proof (induction s arbitrary: b a)
  case Nil
  then show ?case by (simp split: if_splits)
next
  case (Cons c cs)
  show ?case
  proof (cases "prefix sep (c # cs)")
    case True
    with Cons.prems have "b = []" and "a = drop (length sep) (c # cs)" by simp_all
    moreover from True have "length sep \<le> length (c # cs)" by (rule prefix_length_le)
    ultimately show ?thesis by simp
  next
    case False
    with Cons.prems obtain b' where "cut sep cs = Some (b', a)" and "b = c # b'"
      by auto
    with Cons.IH show ?thesis by fastforce
  qed
qed

lemma cut_append: "cut sep s = Some (b, a) \<Longrightarrow> s = b @ sep @ a"
proof (induction s arbitrary: b a)
  case Nil
  then show ?case by (simp split: if_splits)
next
  case (Cons c cs)
  show ?case
  proof (cases "prefix sep (c # cs)")
    case True
    with Cons.prems have "b = []" and "a = drop (length sep) (c # cs)" by simp_all
    moreover from True obtain r where "c # cs = sep @ r" by (auto simp: prefix_def)
    ultimately show ?thesis by simp
  next
    case False
    with Cons.prems obtain b' where "cut sep cs = Some (b', a)" and "b = c # b'"
      by auto
    with Cons.IH show ?thesis by fastforce
  qed
qed

lemma FindStringSubmatch_shorter:
  assumes "FindStringSubmatch name s = Some (content, rest)"
  shows "length rest < length s"
proof -
  from assms obtain before mid where
    o: "cut (openTag name) s = Some (before, mid)" and
    c: "cut (closeTag name) mid = Some (content, rest)"
    by (auto simp: FindStringSubmatch_def split: option.splits)
  from cut_length [OF o] have "length mid < length s" by (simp add: openTag_def)
  moreover from cut_length [OF c] have "length rest \<le> length mid" by simp
  ultimately show ?thesis by simp
qed

text \<open>
  \<open>FindAllStringSubmatch(s, -1)\<close> for the same pattern: the successive non-overlapping
  matches, each search starting where the previous match ended. Only the captured groups are
  kept, which is all the callers read (\<open>match[1]\<close>).
\<close>

function FindAllStringSubmatch :: "string \<Rightarrow> string \<Rightarrow> string list" where
  "FindAllStringSubmatch name s =
     (case FindStringSubmatch name s of
        None \<Rightarrow> []
      | Some (content, rest) \<Rightarrow> content # FindAllStringSubmatch name rest)"
  by pat_completeness auto
termination
  by (relation "measure (\<lambda>(name, s). length s)") (auto dest: FindStringSubmatch_shorter)

declare FindAllStringSubmatch.simps [simp del]

subsection \<open>strings.TrimSpace\<close>

text \<open>
  \<open>strings.TrimSpace\<close> removes leading and trailing white space as Unicode defines it
  (\<open>unicode.IsSpace\<close>). On a byte string these are the six ASCII characters tab, line feed,
  vertical tab, form feed, carriage return and space, and the UTF-8 encodings of U+0085,
  U+00A0, U+1680, U+2000 to U+200A, U+2028, U+2029, U+202F, U+205F and U+3000.
\<close>

definition spaceEncodings :: "string list" where
  "spaceEncodings =
     [[CHR 0x09], [CHR 0x0A], [CHR 0x0B], [CHR 0x0C], [CHR 0x0D], [CHR 0x20],
      [CHR 0xC2, CHR 0x85], [CHR 0xC2, CHR 0xA0],
      [CHR 0xE1, CHR 0x9A, CHR 0x80],
      [CHR 0xE2, CHR 0x80, CHR 0x80], [CHR 0xE2, CHR 0x80, CHR 0x81],
      [CHR 0xE2, CHR 0x80, CHR 0x82], [CHR 0xE2, CHR 0x80, CHR 0x83],
      [CHR 0xE2, CHR 0x80, CHR 0x84], [CHR 0xE2, CHR 0x80, CHR 0x85],
      [CHR 0xE2, CHR 0x80, CHR 0x86], [CHR 0xE2, CHR 0x80, CHR 0x87],
      [CHR 0xE2, CHR 0x80, CHR 0x88], [CHR 0xE2, CHR 0x80, CHR 0x89],
      [CHR 0xE2, CHR 0x80, CHR 0x8A],
      [CHR 0xE2, CHR 0x80, CHR 0xA8], [CHR 0xE2, CHR 0x80, CHR 0xA9],
      [CHR 0xE2, CHR 0x80, CHR 0xAF],
      [CHR 0xE2, CHR 0x81, CHR 0x9F],
      [CHR 0xE3, CHR 0x80, CHR 0x80]]"

lemma spaceEncodings_nonempty: "e \<in> set spaceEncodings \<Longrightarrow> e \<noteq> []"
  by (auto simp: spaceEncodings_def)

text \<open>The white-space rune, if any, that \<open>s\<close> starts with, and the one it ends with.\<close>

definition leadingSpace :: "string \<Rightarrow> string option" where
  "leadingSpace s = find (\<lambda>e. prefix e s) spaceEncodings"

definition trailingSpace :: "string \<Rightarrow> string option" where
  "trailingSpace s = find (\<lambda>e. suffix e s) spaceEncodings"

lemma leadingSpace_Some:
  "leadingSpace s = Some e \<Longrightarrow> e \<in> set spaceEncodings \<and> prefix e s"
  by (auto simp: leadingSpace_def find_Some_iff)

lemma trailingSpace_Some:
  "trailingSpace s = Some e \<Longrightarrow> e \<in> set spaceEncodings \<and> suffix e s"
  by (auto simp: trailingSpace_def find_Some_iff)

function TrimLeftSpace :: "string \<Rightarrow> string" where
  "TrimLeftSpace s =
     (case leadingSpace s of None \<Rightarrow> s | Some e \<Rightarrow> TrimLeftSpace (drop (length e) s))"
  by pat_completeness auto
termination
proof (relation "measure length")
  fix s e :: string
  assume "leadingSpace s = Some e"
  then have "e \<noteq> []" and "prefix e s"
    using leadingSpace_Some spaceEncodings_nonempty by blast+
  then have "s \<noteq> []" by auto
  with \<open>e \<noteq> []\<close> show "(drop (length e) s, s) \<in> measure length" by simp
qed simp

function TrimRightSpace :: "string \<Rightarrow> string" where
  "TrimRightSpace s =
     (case trailingSpace s of
        None \<Rightarrow> s
      | Some e \<Rightarrow> TrimRightSpace (take (length s - length e) s))"
  by pat_completeness auto
termination
proof (relation "measure length")
  fix s e :: string
  assume "trailingSpace s = Some e"
  then have "e \<noteq> []" and "suffix e s"
    using trailingSpace_Some spaceEncodings_nonempty by blast+
  then have "s \<noteq> []" by auto
  with \<open>e \<noteq> []\<close> show "(take (length s - length e) s, s) \<in> measure length" by simp
qed simp

declare TrimLeftSpace.simps [simp del] TrimRightSpace.simps [simp del]

definition TrimSpace :: "string \<Rightarrow> string" where
  "TrimSpace s = TrimRightSpace (TrimLeftSpace s)"

section \<open>Data model\<close>

text \<open>
  The structures of the session, with the fields the functions below read and write.
  \<open>Timestamp\<close> is the clock reading taken when the message was built.
\<close>

record ChatMessage =
  Content :: string
  FromUser :: bool
  Timestamp :: nat

record AIResponse =
  Message :: string
  SendKeys :: "string list"
  ExecCommand :: "string list"
  PasteMultilineContent :: string
  BrowserAction :: string
  RequestAccomplished :: bool
  ExecPaneSeemsBusy :: bool
  WaitingForUserResponse :: bool
  NoComment :: bool

record CommandExecHistory =
  Command :: string
  Output :: string
  Code :: int

text \<open>\<open>system.TmuxPaneDetails\<close>; its field \<open>Id\<close> is named \<open>PaneId\<close> here.\<close>

record TmuxPaneDetails =
  PaneId :: string
  CurrentCommand :: string
  LastLine :: string
  IsPrepared :: bool
  IsSubShell :: bool
  Shell :: string
  OS :: string

record Manager =
  Status :: string
  WatchMode :: bool
  Messages :: "ChatMessage list"
  ExecPane :: TmuxPaneDetails
  ExecHistory :: "CommandExecHistory list"

text \<open>The zero value of \<open>AIResponse\<close>, as \<open>AIResponse{}\<close> builds it.\<close>

definition emptyAIResponse :: AIResponse where
  "emptyAIResponse =
     \<lparr>Message = [], SendKeys = [], ExecCommand = [], PasteMultilineContent = [],
      BrowserAction = [], RequestAccomplished = False, ExecPaneSeemsBusy = False,
      WaitingForUserResponse = False, NoComment = False\<rparr>"

section \<open>Response interpreter: parseAIResponse\<close>

text \<open>
  \<open>parseAIResponse\<close> returns \<open>(AIResponse, error)\<close>; the model returns \<open>Inr r\<close> for
  \<open>(r, nil)\<close> and \<open>Inl msg\<close> for an error. The verdict of
  \<open>json.Unmarshal(content, &testMap)\<close> on a \<open>map[string]interface{}\<close> is the parameter
  \<open>jsonOk\<close>: true when the decoder returns no error. The decoder of the standard library
  is \<open>jsonUnmarshalMap\<close>, defined further down.
\<close>

definition parseAIResponse :: "(string \<Rightarrow> bool) \<Rightarrow> string \<Rightarrow> string + AIResponse" where
  "parseAIResponse jsonOk response =
     (let r = emptyAIResponse\<lparr>Message := response\<rparr>;
          r = (case FindStringSubmatch ''BrowserAction'' response of
                 None \<Rightarrow> r
               | Some (content, rest) \<Rightarrow>
                   (let browserActionContent = TrimSpace content
                    in if jsonOk browserActionContent
                       then r\<lparr>BrowserAction := browserActionContent\<rparr>
                       else r));
          r = r\<lparr>SendKeys :=
                 SendKeys r @ map TrimSpace (FindAllStringSubmatch ''TmuxSendKeys'' response)\<rparr>;
          r = r\<lparr>ExecCommand :=
                 ExecCommand r @ map TrimSpace (FindAllStringSubmatch ''ExecCommand'' response)\<rparr>;
          r = (case FindStringSubmatch ''PasteMultilineContent'' response of
                 None \<Rightarrow> r
               | Some (content, rest) \<Rightarrow> r\<lparr>PasteMultilineContent := TrimSpace content\<rparr>);
          r = r\<lparr>RequestAccomplished :=
                 Contains response ''<RequestAccomplished>1</RequestAccomplished>''\<rparr>;
          r = r\<lparr>ExecPaneSeemsBusy :=
                 Contains response ''<ExecPaneSeemsBusy>1</ExecPaneSeemsBusy>''\<rparr>;
          r = r\<lparr>WaitingForUserResponse :=
                 Contains response ''<WaitingForUserResponse>1</WaitingForUserResponse>''\<rparr>;
          r = r\<lparr>NoComment := Contains response ''<NoComment>1</NoComment>''\<rparr>
      in Inr r)"

section \<open>Guideline validator: aiFollowedGuidelines\<close>

definition msgOneBoolean :: string where
  "msgOneBoolean = ''You didn't follow the guidelines. Only one boolean flag should be set to true in your response. Pay attention!''"

definition msgOneTag :: string where
  "msgOneTag = ''You didn't follow the guidelines. You can only use one type of XML tag in your response. Pay attention!''"

definition msgAtLeastOneTag :: string where
  "msgAtLeastOneTag = ''You didn't follow the guidelines. You must use at least one XML tag in your response. Pay attention!''"

text \<open>The loop \<open>for _, len := range tags { if len > 0 { count++ } }\<close>.\<close>

fun countPositive :: "nat list \<Rightarrow> nat \<Rightarrow> nat" where
  "countPositive [] count = count"
| "countPositive (len # tags) count =
     countPositive tags (if len > 0 then count + 1 else count)"

definition aiFollowedGuidelines :: "Manager \<Rightarrow> AIResponse \<Rightarrow> string \<times> bool" where
  "aiFollowedGuidelines m r =
     (let boolCount = (0::nat);
          boolCount = (if RequestAccomplished r then boolCount + 1 else boolCount);
          boolCount = (if ExecPaneSeemsBusy r then boolCount + 1 else boolCount);
          boolCount = (if WaitingForUserResponse r then boolCount + 1 else boolCount);
          boolCount = (if NoComment r then boolCount + 1 else boolCount)
      in if boolCount > 1 then (msgOneBoolean, False)
         else
           (let tags = [length (ExecCommand r), length (SendKeys r),
                        length (PasteMultilineContent r), length (BrowserAction r)];
                count = countPositive tags 0
            in if count > 1 then (msgOneTag, False)
               else if \<not> WatchMode m \<and> count + boolCount = 0 then (msgAtLeastOneTag, False)
               else ([], True)))"

text \<open>
  The claim's own words, for comparison with the code: the number of boolean flags that are
  set, and the number of action kinds that are populated.
\<close>

definition flagsSet :: "AIResponse \<Rightarrow> nat" where
  "flagsSet r =
     length (filter (\<lambda>b. b)
       [RequestAccomplished r, ExecPaneSeemsBusy r, WaitingForUserResponse r, NoComment r])"

definition actionKindsPopulated :: "AIResponse \<Rightarrow> nat" where
  "actionKindsPopulated r =
     length (filter (\<lambda>b. b)
       [ExecCommand r \<noteq> [], SendKeys r \<noteq> [], PasteMultilineContent r \<noteq> [],
        BrowserAction r \<noteq> []])"

lemma boolCount_flagsSet:
  "(if NoComment r then (if WaitingForUserResponse r then (if ExecPaneSeemsBusy r
      then (if RequestAccomplished r then 0 + 1 else 0) + 1
      else (if RequestAccomplished r then 0 + 1 else 0)) + 1
     else (if ExecPaneSeemsBusy r
      then (if RequestAccomplished r then 0 + 1 else 0) + 1
      else (if RequestAccomplished r then 0 + 1 else (0::nat)))) + 1
    else (if WaitingForUserResponse r then (if ExecPaneSeemsBusy r
      then (if RequestAccomplished r then 0 + 1 else 0) + 1
      else (if RequestAccomplished r then 0 + 1 else 0)) + 1
     else (if ExecPaneSeemsBusy r
      then (if RequestAccomplished r then 0 + 1 else 0) + 1
      else (if RequestAccomplished r then 0 + 1 else 0)))) = flagsSet r"
  by (simp add: flagsSet_def)

lemma countPositive_actionKinds:
  "countPositive [length (ExecCommand r), length (SendKeys r),
      length (PasteMultilineContent r), length (BrowserAction r)] 0 = actionKindsPopulated r"
  by (simp add: actionKindsPopulated_def)

text \<open>
  C3. For every response and watch-mode setting the validator answers \<open>ok = False\<close>, with
  a corrective message, exactly when two or more of the four flags are set, or two or more
  of the four action kinds are populated, or watch mode is off and neither a flag nor an
  action is present. The rules are checked in that order: the message returned is the one
  of the first rule that is broken. Otherwise it answers \<open>ok = True\<close> with no message.
\<close>

theorem aiFollowedGuidelines_rules:
  "aiFollowedGuidelines m r =
     (if 2 \<le> flagsSet r then (msgOneBoolean, False)
      else if 2 \<le> actionKindsPopulated r then (msgOneTag, False)
      else if \<not> WatchMode m \<and> flagsSet r = 0 \<and> actionKindsPopulated r = 0
        then (msgAtLeastOneTag, False)
      else ([], True))
   \<and> (snd (aiFollowedGuidelines m r) = False \<longleftrightarrow>
        2 \<le> flagsSet r \<or> 2 \<le> actionKindsPopulated r \<or>
        (\<not> WatchMode m \<and> flagsSet r = 0 \<and> actionKindsPopulated r = 0))
   \<and> (snd (aiFollowedGuidelines m r) = False \<longleftrightarrow> fst (aiFollowedGuidelines m r) \<noteq> [])"
proof -
  have eq: "aiFollowedGuidelines m r =
     (if 2 \<le> flagsSet r then (msgOneBoolean, False)
      else if 2 \<le> actionKindsPopulated r then (msgOneTag, False)
      else if \<not> WatchMode m \<and> flagsSet r = 0 \<and> actionKindsPopulated r = 0
        then (msgAtLeastOneTag, False)
      else ([], True))"
    unfolding aiFollowedGuidelines_def Let_def boolCount_flagsSet countPositive_actionKinds
    by auto
  have ne: "msgOneBoolean \<noteq> []" "msgOneTag \<noteq> []" "msgAtLeastOneTag \<noteq> []"
    by (simp_all add: msgOneBoolean_def msgOneTag_def msgAtLeastOneTag_def)
  show ?thesis
    unfolding eq using ne by auto
qed



section \<open>White space, and what the interpreter extracts\<close>

text \<open>
  A string is white space only when it is a sequence of white-space runes. This is the
  claim's notion, written down without reference to \<open>TrimSpace\<close>.
\<close>

inductive whitespaceOnly :: "string \<Rightarrow> bool" where
  empty: "whitespaceOnly []"
| rune: "e \<in> set spaceEncodings \<Longrightarrow> whitespaceOnly s \<Longrightarrow> whitespaceOnly (e @ s)"

lemma leadingSpace_Nil: "leadingSpace [] = None"
  by (simp add: leadingSpace_def spaceEncodings_def)

lemma trailingSpace_Nil: "trailingSpace [] = None"
  by (simp add: trailingSpace_def spaceEncodings_def)

lemma leadingSpace_rune:
  assumes "e \<in> set spaceEncodings"
  shows "leadingSpace (e @ s) = Some e"
  using assms unfolding leadingSpace_def spaceEncodings_def list.set insert_iff empty_iff
  by (elim disjE FalseE; simp)

lemma TrimLeftSpace_whitespaceOnly: "whitespaceOnly s \<Longrightarrow> TrimLeftSpace s = []"
proof (induction rule: whitespaceOnly.induct)
  case empty
  show ?case by (subst TrimLeftSpace.simps) (simp add: leadingSpace_Nil)
next
  case (rune e s)
  then show ?case by (subst TrimLeftSpace.simps) (simp add: leadingSpace_rune)
qed

lemma TrimSpace_whitespaceOnly: "whitespaceOnly s \<Longrightarrow> TrimSpace s = []"
  unfolding TrimSpace_def
  by (subst TrimRightSpace.simps) (simp add: TrimLeftSpace_whitespaceOnly trailingSpace_Nil)

text \<open>The value \<open>parseAIResponse\<close> returns, field by field.\<close>

lemma parseAIResponse_fields:
  "parseAIResponse jsonOk response = Inr
     \<lparr>Message = response,
      SendKeys = map TrimSpace (FindAllStringSubmatch ''TmuxSendKeys'' response),
      ExecCommand = map TrimSpace (FindAllStringSubmatch ''ExecCommand'' response),
      PasteMultilineContent =
        (case FindStringSubmatch ''PasteMultilineContent'' response of
           None \<Rightarrow> [] | Some (content, rest) \<Rightarrow> TrimSpace content),
      BrowserAction =
        (case FindStringSubmatch ''BrowserAction'' response of
           None \<Rightarrow> []
         | Some (content, rest) \<Rightarrow>
             if jsonOk (TrimSpace content) then TrimSpace content else []),
      RequestAccomplished = Contains response ''<RequestAccomplished>1</RequestAccomplished>'',
      ExecPaneSeemsBusy = Contains response ''<ExecPaneSeemsBusy>1</ExecPaneSeemsBusy>'',
      WaitingForUserResponse =
        Contains response ''<WaitingForUserResponse>1</WaitingForUserResponse>'',
      NoComment = Contains response ''<NoComment>1</NoComment>''\<rparr>"
  by (simp add: parseAIResponse_def emptyAIResponse_def Let_def split: option.splits)

section \<open>encoding/json: decoding into a map\<close>

text \<open>
  \<open>parseAIResponse\<close> validates the content of a \<open>BrowserAction\<close> tag with
  \<open>json.Unmarshal([]byte(content), &testMap)\<close>, where \<open>testMap\<close> is a
  \<open>map[string]interface{}\<close>. This section models that call of the Go standard library as
  far as its error result goes. \<open>Unmarshal\<close> first checks the syntax of the whole input
  with the scanner of \<open>scanner.go\<close> and then decodes the value into the map.
\<close>

subsection \<open>The scanner\<close>

datatype parseState = parseObjectKey | parseObjectValue | parseArrayValue

text \<open>The step functions of the scanner; \<open>stateError\<close> is the state after a syntax error.\<close>

datatype scanStep =
    stateBeginValue | stateBeginValueOrEmpty | stateBeginStringOrEmpty | stateBeginString
  | stateEndValue | stateEndTop
  | stateInString | stateInStringEsc
  | stateInStringEscU | stateInStringEscU1 | stateInStringEscU12 | stateInStringEscU123
  | stateNeg | state1 | state0 | stateDot | stateDot0 | stateE | stateESign | stateE0
  | stateT | stateTr | stateTru | stateF | stateFa | stateFal | stateFals
  | stateN | stateNu | stateNul
  | stateError

text \<open>
  The scanner: its step function, the stack of \<open>parseState\<close> (innermost first) and
  \<open>endTop\<close>. The last two fields are not the scanner's. They stand for what the decoding
  pass does with numbers: \<open>literal\<close> is the numeric literal being read, and \<open>rangeError\<close>
  records that a numeric literal read so far does not fit a \<open>float64\<close>.
\<close>

record scanner =
  step :: scanStep
  parseStack :: "parseState list"
  endTop :: bool
  literal :: string
  rangeError :: bool

definition reset :: scanner where
  "reset = \<lparr>step = stateBeginValue, parseStack = [], endTop = False, literal = [],
     rangeError = False\<rparr>"

definition isSpace :: "char \<Rightarrow> bool" where
  "isSpace c = (c = CHR '' '' \<or> c = CHR 0x09 \<or> c = CHR 0x0D \<or> c = CHR 0x0A)"

definition isDecimal :: "char \<Rightarrow> bool" where
  "isDecimal c = (c \<in> set ''0123456789'')"

definition isHex :: "char \<Rightarrow> bool" where
  "isHex c = (c \<in> set ''0123456789abcdefABCDEF'')"

definition maxNestingDepth :: nat where
  "maxNestingDepth = 10000"

definition scanError :: "scanner \<Rightarrow> scanner" where
  "scanError s = s\<lparr>step := stateError\<rparr>"

definition goto :: "scanStep \<Rightarrow> scanner \<Rightarrow> scanner" where
  "goto st s = s\<lparr>step := st\<rparr>"

definition pushParseState :: "scanner \<Rightarrow> parseState \<Rightarrow> scanner" where
  "pushParseState s newParseState =
     (let s' = s\<lparr>parseStack := newParseState # parseStack s\<rparr>
      in if length (parseStack s') \<le> maxNestingDepth then s' else scanError s')"

definition popParseState :: "scanner \<Rightarrow> scanner" where
  "popParseState s =
     (let rest = tl (parseStack s)
      in if rest = [] then s\<lparr>parseStack := rest, step := stateEndTop, endTop := True\<rparr>
         else s\<lparr>parseStack := rest, step := stateEndValue\<rparr>)"

text \<open>
  \<open>stateEndTop\<close>: a byte other than white space after the top-level value is a syntax
  error.
\<close>

definition endTopStep :: "scanner \<Rightarrow> char \<Rightarrow> scanner" where
  "endTopStep s c = (if \<not> isSpace c then scanError s else s)"

definition endValue :: "scanner \<Rightarrow> char \<Rightarrow> scanner" where
  "endValue s c =
     (case parseStack s of
        [] \<Rightarrow> endTopStep (s\<lparr>step := stateEndTop, endTop := True\<rparr>) c
      | ps # rest \<Rightarrow>
          if isSpace c then goto stateEndValue s
          else
            (case ps of
               parseObjectKey \<Rightarrow>
                 if c = CHR '':''
                 then s\<lparr>parseStack := parseObjectValue # rest, step := stateBeginValue\<rparr>
                 else scanError s
             | parseObjectValue \<Rightarrow>
                 if c = CHR '',''
                 then s\<lparr>parseStack := parseObjectKey # rest, step := stateBeginString\<rparr>
                 else if c = CHR ''}'' then popParseState s
                 else scanError s
             | parseArrayValue \<Rightarrow>
                 if c = CHR '','' then goto stateBeginValue s
                 else if c = CHR '']'' then popParseState s
                 else scanError s))"

definition beginValue :: "scanner \<Rightarrow> char \<Rightarrow> scanner" where
  "beginValue s c =
     (if isSpace c then s
      else if c = CHR ''{'' then pushParseState (goto stateBeginStringOrEmpty s) parseObjectKey
      else if c = CHR ''['' then pushParseState (goto stateBeginValueOrEmpty s) parseArrayValue
      else if c = CHR 0x22 then goto stateInString s
      else if c = CHR ''-'' then (goto stateNeg s)\<lparr>literal := [c]\<rparr>
      else if c = CHR ''0'' then (goto state0 s)\<lparr>literal := [c]\<rparr>
      else if c = CHR ''t'' then goto stateT s
      else if c = CHR ''f'' then goto stateF s
      else if c = CHR ''n'' then goto stateN s
      else if isDecimal c then (goto state1 s)\<lparr>literal := [c]\<rparr>
      else scanError s)"

definition beginString :: "scanner \<Rightarrow> char \<Rightarrow> scanner" where
  "beginString s c =
     (if isSpace c then s
      else if c = CHR 0x22 then goto stateInString s
      else scanError s)"

text \<open>Reading one more byte of a numeric literal, and a fixed byte of a keyword.\<close>

definition literalByte :: "scanStep \<Rightarrow> scanner \<Rightarrow> char \<Rightarrow> scanner" where
  "literalByte st s c = (goto st s)\<lparr>literal := literal s @ [c]\<rparr>"

definition expect :: "char \<Rightarrow> scanStep \<Rightarrow> scanner \<Rightarrow> char \<Rightarrow> scanner" where
  "expect want st s c = (if c = want then goto st s else scanError s)"

subsection \<open>Numbers\<close>

text \<open>
  A number that is decoded into an \<open>interface{}\<close> is converted with
  \<open>strconv.ParseFloat(s, 64)\<close>, and a range error of that conversion is an error of
  \<open>Unmarshal\<close>. \<open>ParseFloat\<close> reads the literal into a decimal of at most 800 digits
  (\<open>decimal.set\<close>): leading zeros are skipped, further digits are dropped, and the
  exponent stops growing at 10000. The decimal is \<open>mant * 10 ^ (dp - nd)\<close>.
\<close>

record decimalDigits =
  mant :: nat
  nd :: nat
  dp :: int
  sawdot :: bool

definition digitValue :: "char \<Rightarrow> nat" where
  "digitValue c = of_char c - 48"

fun setDigits :: "string \<Rightarrow> decimalDigits \<Rightarrow> decimalDigits \<times> string" where
  "setDigits [] b = (b, [])"
| "setDigits (c # cs) b =
     (if c = CHR ''.'' then setDigits cs (b\<lparr>sawdot := True, dp := int (nd b)\<rparr>)
      else if isDecimal c then
        (if c = CHR ''0'' \<and> nd b = 0 then setDigits cs (b\<lparr>dp := dp b - 1\<rparr>)
         else if nd b < 800
           then setDigits cs (b\<lparr>mant := mant b * 10 + digitValue c, nd := nd b + 1\<rparr>)
         else setDigits cs b)
      else (b, c # cs))"

fun exponent :: "string \<Rightarrow> nat \<Rightarrow> nat" where
  "exponent [] e = e"
| "exponent (c # cs) e = exponent cs (if e < 10000 then e * 10 + digitValue c else e)"

definition decimalSet :: "string \<Rightarrow> decimalDigits" where
  "decimalSet s =
     (let s = (if take 1 s = ''-'' then tl s else s);
          (b, rest) = setDigits s \<lparr>mant = 0, nd = 0, dp = 0, sawdot = False\<rparr>;
          b = (if \<not> sawdot b then b\<lparr>dp := int (nd b)\<rparr> else b)
      in case rest of
           [] \<Rightarrow> b
         | e # digits \<Rightarrow>
             if take 1 digits = ''-'' then b\<lparr>dp := dp b - int (exponent (tl digits) 0)\<rparr>
             else if take 1 digits = ''+'' then b\<lparr>dp := dp b + int (exponent (tl digits) 0)\<rparr>
             else b\<lparr>dp := dp b + int (exponent digits 0)\<rparr>)"

text \<open>
  The conversion rounds to the nearest \<open>float64\<close>, ties to even, and overflows when the
  result is not finite: from \<open>2^1024 - 2^970\<close> on, which is half way between the largest
  \<open>float64\<close> and \<open>2^1024\<close>. A decimal too small for a \<open>float64\<close> becomes zero without
  an error.
\<close>

definition floatOverflows :: "string \<Rightarrow> bool" where
  "floatOverflows s =
     (let b = decimalSet s; e = dp b - int (nd b)
      in if 0 \<le> e then 2 ^ 1024 - 2 ^ 970 \<le> mant b * 10 ^ nat e
         else (2 ^ 1024 - 2 ^ 970) * 10 ^ nat (- e) \<le> mant b)"

text \<open>The end of a numeric literal: the byte after it ends the value.\<close>

definition endNumber :: "scanner \<Rightarrow> char \<Rightarrow> scanner" where
  "endNumber s c =
     endValue (s\<lparr>rangeError := rangeError s \<or> floatOverflows (literal s)\<rparr>) c"

definition zeroStep :: "scanner \<Rightarrow> char \<Rightarrow> scanner" where
  "zeroStep s c =
     (if c = CHR ''.'' then literalByte stateDot s c
      else if c = CHR ''e'' \<or> c = CHR ''E'' then literalByte stateE s c
      else endNumber s c)"

definition eSignStep :: "scanner \<Rightarrow> char \<Rightarrow> scanner" where
  "eSignStep s c = (if isDecimal c then literalByte stateE0 s c else scanError s)"

subsection \<open>One step, and the whole input\<close>

definition scanByte :: "scanner \<Rightarrow> char \<Rightarrow> scanner" where
  "scanByte s c =
     (case step s of
        stateBeginValue \<Rightarrow> beginValue s c
      | stateBeginValueOrEmpty \<Rightarrow>
          if isSpace c then s
          else if c = CHR '']'' then endValue s c
          else beginValue s c
      | stateBeginStringOrEmpty \<Rightarrow>
          if isSpace c then s
          else if c = CHR ''}''
            then endValue (s\<lparr>parseStack := parseObjectValue # tl (parseStack s)\<rparr>) c
          else beginString s c
      | stateBeginString \<Rightarrow> beginString s c
      | stateEndValue \<Rightarrow> endValue s c
      | stateEndTop \<Rightarrow> endTopStep s c
      | stateInString \<Rightarrow>
          if c = CHR 0x22 then goto stateEndValue s
          else if c = CHR 0x5C then goto stateInStringEsc s
          else if (of_char c :: nat) < 0x20 then scanError s
          else s
      | stateInStringEsc \<Rightarrow>
          if c \<in> set ''bfnrt/'' \<or> c = CHR 0x5C \<or> c = CHR 0x22 then goto stateInString s
          else if c = CHR ''u'' then goto stateInStringEscU s
          else scanError s
      | stateInStringEscU \<Rightarrow> if isHex c then goto stateInStringEscU1 s else scanError s
      | stateInStringEscU1 \<Rightarrow> if isHex c then goto stateInStringEscU12 s else scanError s
      | stateInStringEscU12 \<Rightarrow> if isHex c then goto stateInStringEscU123 s else scanError s
      | stateInStringEscU123 \<Rightarrow> if isHex c then goto stateInString s else scanError s
      | stateNeg \<Rightarrow>
          if c = CHR ''0'' then literalByte state0 s c
          else if isDecimal c then literalByte state1 s c
          else scanError s
      | state1 \<Rightarrow> if isDecimal c then literalByte state1 s c else zeroStep s c
      | state0 \<Rightarrow> zeroStep s c
      | stateDot \<Rightarrow> if isDecimal c then literalByte stateDot0 s c else scanError s
      | stateDot0 \<Rightarrow>
          if isDecimal c then literalByte stateDot0 s c
          else if c = CHR ''e'' \<or> c = CHR ''E'' then literalByte stateE s c
          else endNumber s c
      | stateE \<Rightarrow>
          if c = CHR ''+'' \<or> c = CHR ''-'' then literalByte stateESign s c else eSignStep s c
      | stateESign \<Rightarrow> eSignStep s c
      | stateE0 \<Rightarrow> if isDecimal c then literalByte stateE0 s c else endNumber s c
      | stateT \<Rightarrow> expect CHR ''r'' stateTr s c
      | stateTr \<Rightarrow> expect CHR ''u'' stateTru s c
      | stateTru \<Rightarrow> expect CHR ''e'' stateEndValue s c
      | stateF \<Rightarrow> expect CHR ''a'' stateFa s c
      | stateFa \<Rightarrow> expect CHR ''l'' stateFal s c
      | stateFal \<Rightarrow> expect CHR ''s'' stateFals s c
      | stateFals \<Rightarrow> expect CHR ''e'' stateEndValue s c
      | stateN \<Rightarrow> expect CHR ''u'' stateNu s c
      | stateNu \<Rightarrow> expect CHR ''l'' stateNul s c
      | stateNul \<Rightarrow> expect CHR ''l'' stateEndValue s c
      | stateError \<Rightarrow> s)"

text \<open>
  \<open>checkValid\<close> steps through the input and then calls \<open>eof\<close>, which feeds one space
  when the top-level value has not been seen to end. \<open>scanned data\<close> is the scanner at
  that point.
\<close>

definition scanned :: "string \<Rightarrow> scanner" where
  "scanned data =
     (let s = foldl scanByte reset data
      in if step s = stateError \<or> endTop s then s else scanByte s (CHR '' ''))"

definition checkValid :: "string \<Rightarrow> bool" where
  "checkValid data = (step (scanned data) \<noteq> stateError \<and> endTop (scanned data))"

subsection \<open>The verdict of the decoder\<close>

text \<open>The first byte of the value: the first byte of the input that is not white space.\<close>

definition valueStartsWith :: "char \<Rightarrow> string \<Rightarrow> bool" where
  "valueStartsWith c data = (take 1 (dropWhile isSpace data) = [c])"

text \<open>
  \<open>jsonUnmarshalMap data\<close>: \<open>json.Unmarshal(data, &testMap)\<close> returns no error. The input
  must be valid JSON. An object is decoded into the map, with an error only for a number
  out of range. The literal \<open>null\<close> sets the map to nil and is no error. An array, a
  string, a number and a boolean cannot be stored in a map and give an
  \<open>UnmarshalTypeError\<close>.
\<close>

definition jsonUnmarshalMap :: "string \<Rightarrow> bool" where
  "jsonUnmarshalMap data =
     (checkValid data \<and>
      (if valueStartsWith CHR ''{'' data then \<not> rangeError (scanned data)
       else valueStartsWith CHR ''n'' data))"

text \<open>
  The claim's own words: syntactically valid JSON key/value data is a valid JSON text
  whose value is an object.
\<close>

definition jsonObjectText :: "string \<Rightarrow> bool" where
  "jsonObjectText data = (checkValid data \<and> valueStartsWith CHR ''{'' data)"

definition jsonNullText :: "string \<Rightarrow> bool" where
  "jsonNullText data = (checkValid data \<and> valueStartsWith CHR ''n'' data)"

text \<open>The definitions of this section, for evaluating the decoder on a given text.\<close>

lemmas scan_defs = jsonUnmarshalMap_def jsonObjectText_def jsonNullText_def checkValid_def
  scanned_def reset_def scanByte_def beginValue_def beginString_def endValue_def
  endTopStep_def endNumber_def zeroStep_def eSignStep_def literalByte_def expect_def goto_def
  scanError_def pushParseState_def popParseState_def maxNestingDepth_def isSpace_def
  isDecimal_def isHex_def valueStartsWith_def Let_def

lemma jsonUnmarshalMap_kinds:
  "jsonUnmarshalMap data \<Longrightarrow> jsonObjectText data \<or> jsonNullText data"
  by (auto simp: jsonUnmarshalMap_def jsonObjectText_def jsonNullText_def split: if_splits)

text \<open>Some texts and the decoder's verdict on them.\<close>

lemma jsonUnmarshalMap_examples:
  "jsonUnmarshalMap ''{}''"
  "jsonUnmarshalMap ''null''"
  "\<not> jsonUnmarshalMap ''[1, 2]''"
  "\<not> jsonUnmarshalMap ''true''"
  "\<not> jsonUnmarshalMap ''{url: x''"
  "\<not> jsonUnmarshalMap ''{} x''"
  "\<not> jsonUnmarshalMap []"
  by (simp_all add: scan_defs)

lemma jsonUnmarshalMap_objects:
  \<open>jsonUnmarshalMap ''{"action": "navigate", "url": "https://example.com"}''\<close>
  \<open>jsonUnmarshalMap ''{"n": 1}''\<close>
  \<open>\<not> jsonUnmarshalMap ''{"n": 2e308}''\<close>
  by (simp_all add: scan_defs floatOverflows_def decimalSet_def digitValue_def)

lemma TrimSpace_null: "TrimSpace ''null'' = ''null''"
  by (simp add: TrimSpace_def TrimLeftSpace.simps TrimRightSpace.simps leadingSpace_def
      trailingSpace_def spaceEncodings_def suffix_to_prefix)

section \<open>The response interpreter never fails\<close>

text \<open>
  C6, as the code has it. For every raw reply the response interpreter returns a response
  and no error. When the reply has no recognised structure (no tag pattern matches and no
  flag marker occurs) every action field is empty and every flag is false, and \<open>Message\<close>
  holds the raw reply. When the first \<open>BrowserAction\<close> tag holds content that the decoder
  rejects, the parse still succeeds and the \<open>BrowserAction\<close> field stays empty; that is
  so for all content that is not valid JSON, and for valid JSON whose value is neither an
  object nor the literal \<open>null\<close>.
\<close>

theorem parseAIResponse_never_fails:
  "\<exists>r. parseAIResponse jsonUnmarshalMap response = Inr r \<and>
     (FindStringSubmatch ''BrowserAction'' response = None \<and>
      FindAllStringSubmatch ''TmuxSendKeys'' response = [] \<and>
      FindAllStringSubmatch ''ExecCommand'' response = [] \<and>
      FindStringSubmatch ''PasteMultilineContent'' response = None \<and>
      \<not> Contains response ''<RequestAccomplished>1</RequestAccomplished>'' \<and>
      \<not> Contains response ''<ExecPaneSeemsBusy>1</ExecPaneSeemsBusy>'' \<and>
      \<not> Contains response ''<WaitingForUserResponse>1</WaitingForUserResponse>'' \<and>
      \<not> Contains response ''<NoComment>1</NoComment>''
      \<longrightarrow> r = emptyAIResponse\<lparr>Message := response\<rparr>) \<and>
     (\<forall>content rest.
        FindStringSubmatch ''BrowserAction'' response = Some (content, rest) \<and>
        \<not> jsonUnmarshalMap (TrimSpace content)
        \<longrightarrow> BrowserAction r = []) \<and>
     (\<forall>content rest.
        FindStringSubmatch ''BrowserAction'' response = Some (content, rest) \<and>
        \<not> jsonObjectText (TrimSpace content) \<and> \<not> jsonNullText (TrimSpace content)
        \<longrightarrow> BrowserAction r = [])"
  unfolding parseAIResponse_fields
  by (auto simp: emptyAIResponse_def dest: jsonUnmarshalMap_kinds)

theorem parseAIResponse_never_fails_witness:
  "(\<exists>r. parseAIResponse jsonUnmarshalMap ''I am done.'' = Inr r \<and>
        r = emptyAIResponse\<lparr>Message := ''I am done.''\<rparr>) \<and>
   (\<exists>r. parseAIResponse jsonUnmarshalMap ''<BrowserAction> {url: x </BrowserAction>'' = Inr r \<and>
        FindStringSubmatch ''BrowserAction'' ''<BrowserAction> {url: x </BrowserAction>''
          = Some ('' {url: x '', []) \<and>
        \<not> jsonUnmarshalMap (TrimSpace '' {url: x '') \<and>
        BrowserAction r = []) \<and>
   (\<exists>r. parseAIResponse jsonUnmarshalMap ''<BrowserAction>[1, 2]</BrowserAction>'' = Inr r \<and>
        FindStringSubmatch ''BrowserAction'' ''<BrowserAction>[1, 2]</BrowserAction>''
          = Some (''[1, 2]'', []) \<and>
        \<not> jsonObjectText (TrimSpace ''[1, 2]'') \<and> \<not> jsonNullText (TrimSpace ''[1, 2]'') \<and>
        BrowserAction r = [])"
proof -
  have ev: "FindStringSubmatch ''BrowserAction'' ''I am done.'' = None \<and>
      FindAllStringSubmatch ''TmuxSendKeys'' ''I am done.'' = [] \<and>
      FindAllStringSubmatch ''ExecCommand'' ''I am done.'' = [] \<and>
      FindStringSubmatch ''PasteMultilineContent'' ''I am done.'' = None \<and>
      \<not> Contains ''I am done.'' ''<RequestAccomplished>1</RequestAccomplished>'' \<and>
      \<not> Contains ''I am done.'' ''<ExecPaneSeemsBusy>1</ExecPaneSeemsBusy>'' \<and>
      \<not> Contains ''I am done.'' ''<WaitingForUserResponse>1</WaitingForUserResponse>'' \<and>
      \<not> Contains ''I am done.'' ''<NoComment>1</NoComment>''"
    by (simp add: FindAllStringSubmatch.simps FindStringSubmatch_def openTag_def
        closeTag_def Contains_def)
  from parseAIResponse_never_fails [of "''I am done.''"]
  obtain r where r: "parseAIResponse jsonUnmarshalMap ''I am done.'' = Inr r"
    and e: "FindStringSubmatch ''BrowserAction'' ''I am done.'' = None \<and>
      FindAllStringSubmatch ''TmuxSendKeys'' ''I am done.'' = [] \<and>
      FindAllStringSubmatch ''ExecCommand'' ''I am done.'' = [] \<and>
      FindStringSubmatch ''PasteMultilineContent'' ''I am done.'' = None \<and>
      \<not> Contains ''I am done.'' ''<RequestAccomplished>1</RequestAccomplished>'' \<and>
      \<not> Contains ''I am done.'' ''<ExecPaneSeemsBusy>1</ExecPaneSeemsBusy>'' \<and>
      \<not> Contains ''I am done.'' ''<WaitingForUserResponse>1</WaitingForUserResponse>'' \<and>
      \<not> Contains ''I am done.'' ''<NoComment>1</NoComment>''
      \<longrightarrow> r = emptyAIResponse\<lparr>Message := ''I am done.''\<rparr>"
    by (elim exE conjE) (rule that)
  from mp [OF e ev] r
  have a: "\<exists>r. parseAIResponse jsonUnmarshalMap ''I am done.'' = Inr r \<and>
        r = emptyAIResponse\<lparr>Message := ''I am done.''\<rparr>"
    by (intro exI [of _ r] conjI)
  have m: "FindStringSubmatch ''BrowserAction'' ''<BrowserAction> {url: x </BrowserAction>''
          = Some ('' {url: x '', [])"
    by (simp add: FindStringSubmatch_def openTag_def closeTag_def)
  have t: "TrimSpace '' {url: x '' = ''{url: x''"
    by (simp add: TrimSpace_def TrimLeftSpace.simps TrimRightSpace.simps leadingSpace_def
        trailingSpace_def spaceEncodings_def suffix_to_prefix)
  have n: "\<not> jsonUnmarshalMap (TrimSpace '' {url: x '')"
    unfolding t by (rule jsonUnmarshalMap_examples)
  from parseAIResponse_never_fails [of "''<BrowserAction> {url: x </BrowserAction>''"]
  obtain r' where r': "parseAIResponse jsonUnmarshalMap
          ''<BrowserAction> {url: x </BrowserAction>'' = Inr r'"
    and d: "\<forall>content rest.
        FindStringSubmatch ''BrowserAction'' ''<BrowserAction> {url: x </BrowserAction>''
          = Some (content, rest) \<and>
        \<not> jsonUnmarshalMap (TrimSpace content)
        \<longrightarrow> BrowserAction r' = []"
    by (elim exE conjE) (rule that)
  from m n have "FindStringSubmatch ''BrowserAction'' ''<BrowserAction> {url: x </BrowserAction>''
          = Some ('' {url: x '', []) \<and> \<not> jsonUnmarshalMap (TrimSpace '' {url: x '')"
    by (intro conjI)
  from mp [OF spec [OF spec [OF d]] this] r' m n
  have b: "\<exists>r. parseAIResponse jsonUnmarshalMap
          ''<BrowserAction> {url: x </BrowserAction>'' = Inr r \<and>
        FindStringSubmatch ''BrowserAction'' ''<BrowserAction> {url: x </BrowserAction>''
          = Some ('' {url: x '', []) \<and>
        \<not> jsonUnmarshalMap (TrimSpace '' {url: x '') \<and>
        BrowserAction r = []"
    by (intro exI [of _ r'] conjI)
  have m2: "FindStringSubmatch ''BrowserAction'' ''<BrowserAction>[1, 2]</BrowserAction>''
          = Some (''[1, 2]'', [])"
    by (simp add: FindStringSubmatch_def openTag_def closeTag_def)
  have t2: "TrimSpace ''[1, 2]'' = ''[1, 2]''"
    by (simp add: TrimSpace_def TrimLeftSpace.simps TrimRightSpace.simps leadingSpace_def
        trailingSpace_def spaceEncodings_def suffix_to_prefix)
  have o: "\<not> jsonObjectText (TrimSpace ''[1, 2]'')"
    and l: "\<not> jsonNullText (TrimSpace ''[1, 2]'')"
    unfolding t2 by (simp_all add: scan_defs)
  from parseAIResponse_never_fails [of "''<BrowserAction>[1, 2]</BrowserAction>''"]
  obtain r'' where r'': "parseAIResponse jsonUnmarshalMap
          ''<BrowserAction>[1, 2]</BrowserAction>'' = Inr r''"
    and k: "\<forall>content rest.
        FindStringSubmatch ''BrowserAction'' ''<BrowserAction>[1, 2]</BrowserAction>''
          = Some (content, rest) \<and>
        \<not> jsonObjectText (TrimSpace content) \<and> \<not> jsonNullText (TrimSpace content)
        \<longrightarrow> BrowserAction r'' = []"
    by (elim exE conjE) (rule that)
  from m2 o l have "FindStringSubmatch ''BrowserAction'' ''<BrowserAction>[1, 2]</BrowserAction>''
          = Some (''[1, 2]'', []) \<and>
        \<not> jsonObjectText (TrimSpace ''[1, 2]'') \<and> \<not> jsonNullText (TrimSpace ''[1, 2]'')"
    by (intro conjI)
  from mp [OF spec [OF spec [OF k]] this] r'' m2 o l
  have c: "\<exists>r. parseAIResponse jsonUnmarshalMap ''<BrowserAction>[1, 2]</BrowserAction>'' = Inr r \<and>
        FindStringSubmatch ''BrowserAction'' ''<BrowserAction>[1, 2]</BrowserAction>''
          = Some (''[1, 2]'', []) \<and>
        \<not> jsonObjectText (TrimSpace ''[1, 2]'') \<and> \<not> jsonNullText (TrimSpace ''[1, 2]'') \<and>
        BrowserAction r = []"
    by (intro exI [of _ r''] conjI)
  from a b c show ?thesis by (intro conjI)
qed

text \<open>
  C6 as the claim states it fails twice. The content \<open>null\<close> is not JSON key/value data,
  yet the decoder accepts it and the \<open>BrowserAction\<close> field holds \<open>null\<close>. And for the
  reply \<open>I am done.\<close>, which has no recognised structure, the response is not all empty:
  its \<open>Message\<close> is the reply.
\<close>

theorem browser_action_null_kept_counterexample:
  "\<not> jsonObjectText ''null''
   \<and> parseAIResponse jsonUnmarshalMap ''<BrowserAction>null</BrowserAction>''
       = Inr (emptyAIResponse\<lparr>Message := ''<BrowserAction>null</BrowserAction>'',
                BrowserAction := ''null''\<rparr>)
   \<and> parseAIResponse jsonUnmarshalMap ''I am done.''
       = Inr (emptyAIResponse\<lparr>Message := ''I am done.''\<rparr>)
   \<and> emptyAIResponse\<lparr>Message := ''I am done.''\<rparr> \<noteq> emptyAIResponse"
proof -
  have "\<not> jsonObjectText ''null''"
    by (simp add: scan_defs)
  moreover have "parseAIResponse jsonUnmarshalMap ''<BrowserAction>null</BrowserAction>''
       = Inr (emptyAIResponse\<lparr>Message := ''<BrowserAction>null</BrowserAction>'',
                BrowserAction := ''null''\<rparr>)"
    by (simp add: parseAIResponse_fields FindAllStringSubmatch.simps FindStringSubmatch_def
        openTag_def closeTag_def Contains_def TrimSpace_null jsonUnmarshalMap_examples
        emptyAIResponse_def)
  moreover have "parseAIResponse jsonUnmarshalMap ''I am done.''
       = Inr (emptyAIResponse\<lparr>Message := ''I am done.''\<rparr>)"
    by (simp add: parseAIResponse_fields FindAllStringSubmatch.simps FindStringSubmatch_def
        openTag_def closeTag_def Contains_def emptyAIResponse_def)
  moreover have "emptyAIResponse\<lparr>Message := ''I am done.''\<rparr> \<noteq> emptyAIResponse"
    by (simp add: emptyAIResponse_def)
  ultimately show ?thesis by (intro conjI)
qed

text \<open>
  C10. A reply whose only recognised tag is a \<open>PasteMultilineContent\<close> with empty or
  white-space-only content, and which sets no flag, is parsed with the paste content
  trimmed to the empty string; the validator then counts no action and, outside watch mode,
  rejects the reply although the tag is present.
\<close>

theorem blank_paste_rejected:
  assumes "FindStringSubmatch ''PasteMultilineContent'' response = Some (content, rest)"
    and "whitespaceOnly content"
    and "FindStringSubmatch ''BrowserAction'' response = None"
    and "FindAllStringSubmatch ''TmuxSendKeys'' response = []"
    and "FindAllStringSubmatch ''ExecCommand'' response = []"
    and "\<not> Contains response ''<RequestAccomplished>1</RequestAccomplished>''"
    and "\<not> Contains response ''<ExecPaneSeemsBusy>1</ExecPaneSeemsBusy>''"
    and "\<not> Contains response ''<WaitingForUserResponse>1</WaitingForUserResponse>''"
    and "\<not> Contains response ''<NoComment>1</NoComment>''"
    and "\<not> WatchMode m"
  shows "\<exists>r. parseAIResponse jsonOk response = Inr r \<and>
           PasteMultilineContent r = TrimSpace content \<and>
           PasteMultilineContent r = [] \<and>
           actionKindsPopulated r = 0 \<and>
           aiFollowedGuidelines m r = (msgAtLeastOneTag, False)"
proof -
  from assms(2) have "TrimSpace content = []" by (rule TrimSpace_whitespaceOnly)
  with assms show ?thesis
    unfolding parseAIResponse_fields
    by (simp add: aiFollowedGuidelines_def actionKindsPopulated_def)
qed


theorem blank_paste_rejected_witness:
  "\<exists>r. parseAIResponse (\<lambda>s. s = ''{}'')
          ''Here: <PasteMultilineContent> 
 </PasteMultilineContent>'' = Inr r \<and>
       PasteMultilineContent r = [] \<and>
       aiFollowedGuidelines
         \<lparr>Status = ''running'', WatchMode = False, Messages = [],
          ExecPane = \<lparr>PaneId = ''%1'', CurrentCommand = ''bash'', LastLine = [],
            IsPrepared = False, IsSubShell = False, Shell = ''bash'', OS = ''linux''\<rparr>,
          ExecHistory = []\<rparr> r = (msgAtLeastOneTag, False)"
proof -
  let ?resp = "''Here: <PasteMultilineContent> 
 </PasteMultilineContent>''"
  have m: "FindStringSubmatch ''PasteMultilineContent'' ?resp = Some ('' 
 '', [])"
    by (simp add: FindStringSubmatch_def openTag_def closeTag_def)
  have "whitespaceOnly ([CHR 0x20] @ [CHR 0x0A] @ [CHR 0x20] @ [])"
    by (intro whitespaceOnly.intros) (simp_all add: spaceEncodings_def)
  then have w: "whitespaceOnly '' 
 ''" by simp
  have ev: "FindStringSubmatch ''BrowserAction'' ?resp = None"
    "FindAllStringSubmatch ''TmuxSendKeys'' ?resp = []"
    "FindAllStringSubmatch ''ExecCommand'' ?resp = []"
    "\<not> Contains ?resp ''<RequestAccomplished>1</RequestAccomplished>''"
    "\<not> Contains ?resp ''<ExecPaneSeemsBusy>1</ExecPaneSeemsBusy>''"
    "\<not> Contains ?resp ''<WaitingForUserResponse>1</WaitingForUserResponse>''"
    "\<not> Contains ?resp ''<NoComment>1</NoComment>''"
    by (simp_all add: FindAllStringSubmatch.simps FindStringSubmatch_def openTag_def
        closeTag_def Contains_def)
  have nw: "\<not> WatchMode \<lparr>Status = ''running'', WatchMode = False, Messages = [],
          ExecPane = \<lparr>PaneId = ''%1'', CurrentCommand = ''bash'', LastLine = [],
            IsPrepared = False, IsSubShell = False, Shell = ''bash'', OS = ''linux''\<rparr>,
          ExecHistory = []\<rparr>" by simp
  from blank_paste_rejected [OF m w ev nw, of "\<lambda>s. s = ''{}''"]
  obtain r where "parseAIResponse (\<lambda>s. s = ''{}'') ?resp = Inr r"
    and "PasteMultilineContent r = []"
    and "aiFollowedGuidelines
         \<lparr>Status = ''running'', WatchMode = False, Messages = [],
          ExecPane = \<lparr>PaneId = ''%1'', CurrentCommand = ''bash'', LastLine = [],
            IsPrepared = False, IsSubShell = False, Shell = ''bash'', OS = ''linux''\<rparr>,
          ExecHistory = []\<rparr> r = (msgAtLeastOneTag, False)"
    by (elim exE conjE) (rule that)
  then show ?thesis by (intro exI [of _ r] conjI)
qed

section \<open>Prompt grammar and transcript parser\<close>

text \<open>
  The transcript parser and the prompt pattern are not among the sources; only their tests
  are. They are modelled from the specification.
\<close>

text \<open>
  Modelled from the spec: one prompt occurrence found in a capture, which the specification
  records as the match's position and its extracted status field. \<open>mStart\<close> is the offset
  of the first byte of the match and \<open>mEnd\<close> the offset just after its last byte.
\<close>

record PromptMatch =
  mStart :: nat
  mEnd :: nat
  mStatus :: int

text \<open>
  Modelled from the spec: the active prompt grammar, as the function that scans a text for
  all non-overlapping prompt-pattern matches, in order of appearance. The regular
  expression itself is not given by the specification, so the parser takes the grammar as
  a parameter.
\<close>

type_synonym PromptGrammar = "string \<Rightarrow> PromptMatch list"

text \<open>\<open>strings.Split(s, "\n")\<close> and \<open>strings.Join(lines, "\n")\<close>.\<close>

fun splitLines :: "string \<Rightarrow> string list" where
  "splitLines [] = [[]]"
| "splitLines (c # cs) =
     (if c = CHR 0x0A then [] # splitLines cs
      else (case splitLines cs of [] \<Rightarrow> [[c]] | l # ls \<Rightarrow> (c # l) # ls))"

fun joinLines :: "string list \<Rightarrow> string" where
  "joinLines [] = []"
| "joinLines [l] = l"
| "joinLines (l # k # ls) = l @ [CHR 0x0A] @ joinLines (k # ls)"

text \<open>A split always has a first and a last line, so \<open>hd\<close> and \<open>last\<close> of it are defined.\<close>

lemma splitLines_not_Nil: "splitLines s \<noteq> []"
  by (induction s) (auto split: list.splits)

definition slice :: "string \<Rightarrow> nat \<Rightarrow> nat \<Rightarrow> string" where
  "slice s lo hi = take (hi - lo) (drop lo s)"

definition isBlank :: "string \<Rightarrow> bool" where
  "isBlank l = (TrimSpace l = [])"

text \<open>
  Modelled from the spec: within the text between two prompt matches, the first line is the
  command, verbatim; all subsequent lines are the output, with leading and trailing blank
  lines trimmed.
\<close>

definition commandOf :: "string \<Rightarrow> string" where
  "commandOf segment = hd (splitLines segment)"

definition outputOf :: "string \<Rightarrow> string" where
  "outputOf segment =
     joinLines (rev (dropWhile isBlank (rev (dropWhile isBlank (tl (splitLines segment))))))"

text \<open>
  Modelled from the spec: a command is emitted only if the command text is non-empty;
  white-space-only gaps between prompts are skipped.
\<close>

definition emitEntry :: "string \<Rightarrow> int \<Rightarrow> CommandExecHistory list" where
  "emitEntry segment code =
     (if isBlank (commandOf segment) then []
      else [\<lparr>Command = commandOf segment, Output = outputOf segment, Code = code\<rparr>])"

text \<open>
  Modelled from the spec: entry \<open>i\<close> is read between the end of prompt match \<open>i\<close> and the
  start of prompt match \<open>i+1\<close>, and its status code is the status field of match \<open>i+1\<close>.
  After the last match the text runs to the end of the capture and the code is \<open>-1\<close>. No
  match at all gives no entry.
\<close>

fun entriesBetween :: "string \<Rightarrow> PromptMatch list \<Rightarrow> CommandExecHistory list" where
  "entriesBetween content [] = []"
| "entriesBetween content [m] = emitEntry (slice content (mEnd m) (length content)) (- 1)"
| "entriesBetween content (m # n # ms) =
     emitEntry (slice content (mEnd m) (mStart n)) (mStatus n) @ entriesBetween content (n # ms)"

text \<open>
  Modelled from the spec: the transcript parser (\<open>parseExecPaneCommandHistoryWithContent\<close>
  in the tests), which scans the capture with the grammar and reads the entries between
  the matches.
\<close>

definition parseExecPaneCommandHistoryWithContent ::
    "PromptGrammar \<Rightarrow> string \<Rightarrow> CommandExecHistory list" where
  "parseExecPaneCommandHistoryWithContent grammar content =
     entriesBetween content (grammar content)"

subsection \<open>The canonical prompt shape\<close>

text \<open>
  Modelled from the spec: a recogniser for the canonical prompt shape
  \<^verbatim>\<open><user>@<host>:<path>[<HH:MM>][<status>]<delimiter> \<close>, one occurrence per line at most.
  The delimiter is U+00BB, the bytes C2 BB. It is the grammar the examples below run on.
\<close>

definition delimiter :: string where
  "delimiter = [CHR 0xC2, CHR 0xBB]"

definition isDigit :: "char \<Rightarrow> bool" where
  "isDigit c = (c \<in> set ''0123456789'')"

fun decimal :: "string \<Rightarrow> int \<Rightarrow> int" where
  "decimal [] acc = acc"
| "decimal (c # cs) acc = decimal cs (10 * acc + (int (of_char c) - 48))"

text \<open>
  The text of a line in front of the delimiter is read from its end: \<open>]\<close>, the status
  digits, \<open>[\<close>, \<open>]\<close>, the time \<open>HH:MM\<close>, \<open>[\<close>, and before that a text holding \<open>@\<close> and
  \<open>:\<close>. The result is the status.
\<close>

definition statusOfPrompt :: "string \<Rightarrow> int option" where
  "statusOfPrompt before =
     (let r = rev before;
          digits = takeWhile isDigit (tl r);
          r1 = drop (length digits) (tl r);
          time = take 5 (drop 2 r1);
          r2 = drop 8 r1
      in if take 1 r = '']'' \<and> digits \<noteq> [] \<and> take 2 r1 = ''[]''
            \<and> length time = 5 \<and> isDigit (time ! 0) \<and> isDigit (time ! 1) \<and> time ! 2 = CHR '':''
            \<and> isDigit (time ! 3) \<and> isDigit (time ! 4) \<and> take 1 (drop 7 r1) = ''[''
            \<and> CHR '':'' \<in> set r2 \<and> CHR ''@'' \<in> set r2
         then Some (decimal (rev digits) 0) else None)"

definition promptInLine :: "string \<Rightarrow> (nat \<times> int) option" where
  "promptInLine l =
     (case cut (delimiter @ '' '') l of
        None \<Rightarrow> None
      | Some (front, back) \<Rightarrow>
          (case statusOfPrompt front of
             None \<Rightarrow> None
           | Some st \<Rightarrow> Some (length front + 3, st)))"

fun scanLines :: "nat \<Rightarrow> string list \<Rightarrow> PromptMatch list" where
  "scanLines off [] = []"
| "scanLines off (l # ls) =
     (case promptInLine l of
        None \<Rightarrow> []
      | Some (len, st) \<Rightarrow> [\<lparr>mStart = off, mEnd = off + len, mStatus = st\<rparr>])
     @ scanLines (off + length l + 1) ls"

definition canonicalPrompts :: PromptGrammar where
  "canonicalPrompts content = scanLines 0 (splitLines content)"


subsection \<open>What the parser returns\<close>

text \<open>
  The claim's own words, for comparison with the parser: the text of the command segment
  after prompt match \<open>i\<close>, and the status field of the prompt match that follows it, or
  \<open>-1\<close> when none follows.
\<close>

definition segmentAfter :: "string \<Rightarrow> PromptMatch list \<Rightarrow> nat \<Rightarrow> string" where
  "segmentAfter content ms i =
     slice content (mEnd (ms ! i))
       (if Suc i < length ms then mStart (ms ! Suc i) else length content)"

definition followingStatus :: "PromptMatch list \<Rightarrow> nat \<Rightarrow> int" where
  "followingStatus ms i = (if Suc i < length ms then mStatus (ms ! Suc i) else - 1)"

definition commandSegments :: "string \<Rightarrow> PromptMatch list \<Rightarrow> nat list" where
  "commandSegments content ms =
     filter (\<lambda>i. \<not> isBlank (commandOf (segmentAfter content ms i))) [0..<length ms]"

definition entryAt :: "string \<Rightarrow> PromptMatch list \<Rightarrow> nat \<Rightarrow> CommandExecHistory" where
  "entryAt content ms i =
     \<lparr>Command = commandOf (segmentAfter content ms i),
      Output = outputOf (segmentAfter content ms i),
      Code = followingStatus ms i\<rparr>"

lemma concat_map_optional:
  "concat (map (\<lambda>i. if P i then [] else [f i]) xs) = map f (filter (\<lambda>i. \<not> P i) xs)"
  by (induction xs) simp_all

lemma upt_Suc_shift: "[0..<Suc n] = 0 # map Suc [0..<n]"
  by (simp add: upt_conv_Cons map_Suc_upt del: upt_Suc)

lemma entriesBetween_by_index:
  "entriesBetween content ms =
     concat (map (\<lambda>i. emitEntry (segmentAfter content ms i) (followingStatus ms i))
       [0..<length ms])"
proof (induction content ms rule: entriesBetween.induct)
  case (1 content)
  show ?case by simp
next
  case (2 content m)
  show ?case by (simp add: segmentAfter_def followingStatus_def)
next
  case (3 content m n ms)
  let ?F = "\<lambda>i. emitEntry (segmentAfter content (m # n # ms) i)
                    (followingStatus (m # n # ms) i)"
  let ?G = "\<lambda>i. emitEntry (segmentAfter content (n # ms) i) (followingStatus (n # ms) i)"
  have idx: "[0..<length (m # n # ms)] = 0 # map Suc [0..<length (n # ms)]"
    by (simp only: length_Cons upt_Suc_shift)
  have shift: "?F (Suc i) = ?G i" for i
    by (simp add: segmentAfter_def followingStatus_def)
  have first: "?F 0 = emitEntry (slice content (mEnd m) (mStart n)) (mStatus n)"
    by (simp add: segmentAfter_def followingStatus_def)
  have "concat (map ?F [0..<length (m # n # ms)])
      = ?F 0 @ concat (map (\<lambda>i. ?F (Suc i)) [0..<length (n # ms)])"
    by (simp only: idx list.map concat.simps map_map o_def)
  also have "\<dots> = ?F 0 @ concat (map ?G [0..<length (n # ms)])"
    by (simp only: shift)
  also have "\<dots> = emitEntry (slice content (mEnd m) (mStart n)) (mStatus n)
                   @ entriesBetween content (n # ms)"
    by (simp only: first "3.IH")
  finally show ?case by simp
qed

text \<open>
  C5. A capture in which the grammar finds no prompt match gives the empty entry sequence.
  The parser is a total function into lists of entries; it has no error result.
\<close>

theorem no_prompt_no_entries:
  "grammar content = [] \<Longrightarrow> parseExecPaneCommandHistoryWithContent grammar content = []"
  by (simp add: parseExecPaneCommandHistoryWithContent_def)

definition foreignCapture :: string where
  "foreignCapture = ''user@remote-server:~$ ls -la
total 12
-rw-r--r-- 1 user user   18 Jan 15 10:30 .bashrc
user@remote-server:~$ ''"

lemma canonicalPrompts_foreignCapture: "canonicalPrompts foreignCapture = []"
  by (simp add: canonicalPrompts_def foreignCapture_def promptInLine_def delimiter_def)

theorem no_prompt_no_entries_witness:
  "canonicalPrompts foreignCapture = [] \<and>
   parseExecPaneCommandHistoryWithContent canonicalPrompts foreignCapture = []"
  using no_prompt_no_entries [of canonicalPrompts foreignCapture]
    canonicalPrompts_foreignCapture by simp

text \<open>
  C1. The parser returns one entry per non-empty command segment, in order of appearance.
  The code of each entry is the status field of the prompt match that follows its command,
  and \<open>-1\<close> when no prompt match follows, whatever status the preceding prompt shows.
\<close>

theorem entries_follow_prompts:
  "parseExecPaneCommandHistoryWithContent grammar content =
     map (entryAt content (grammar content)) (commandSegments content (grammar content))
   \<and> length (parseExecPaneCommandHistoryWithContent grammar content) =
       length (commandSegments content (grammar content))
   \<and> map Code (parseExecPaneCommandHistoryWithContent grammar content) =
       map (followingStatus (grammar content)) (commandSegments content (grammar content))"
proof -
  have "parseExecPaneCommandHistoryWithContent grammar content =
     map (entryAt content (grammar content)) (commandSegments content (grammar content))"
    unfolding parseExecPaneCommandHistoryWithContent_def entriesBetween_by_index
      emitEntry_def commandSegments_def concat_map_optional entryAt_def ..
  then show ?thesis by (simp add: entryAt_def)
qed

text \<open>The capture of the test \<open>TestParseExecPaneCommandHistory_MixedFormats\<close>.\<close>

definition mixedCapture :: string where
  \<open>mixedCapture =
     ''user@host:/tmp[09:15][0]'' @ delimiter @ '' echo "test1"
test1
different@machine:/home[23:59][1]'' @ delimiter @ '' echo "test2"
test2
user@localhost:~[00:00][0]'' @ delimiter @ '' ''\<close>

lemma mixedCapture_entries:
  \<open>parseExecPaneCommandHistoryWithContent canonicalPrompts mixedCapture =
     [\<lparr>Command = ''echo "test1"'', Output = ''test1'', Code = 1\<rparr>,
      \<lparr>Command = ''echo "test2"'', Output = ''test2'', Code = 0\<rparr>]\<close>
  by (simp add: parseExecPaneCommandHistoryWithContent_def canonicalPrompts_def mixedCapture_def
      promptInLine_def delimiter_def statusOfPrompt_def isDigit_def slice_def emitEntry_def
      commandOf_def outputOf_def isBlank_def TrimSpace_def TrimLeftSpace.simps
      TrimRightSpace.simps leadingSpace_def trailingSpace_def spaceEncodings_def
      suffix_to_prefix Let_def)

section \<open>The pane, the clock and the collaborators\<close>

text \<open>
  What the session does to the outside is kept in a record: the directives sent to panes by
  \<open>system.TmuxSendCommandToPane\<close> (pane, text, whether Enter follows), the browser actions
  performed, the number of pane captures taken, and a clock. The clock counts the points at
  which control blocks (a chat request, a question to the user, a sleep). Printing and the
  spinner are not modelled.
\<close>

record World =
  clock :: nat
  captures :: nat
  sent :: "(string \<times> string \<times> bool) list"
  browsed :: "string list"

text \<open>
  Everything the functions call but do not define. The answers of the outside (the chat
  service, the user, the pane, the browser) are functions of the clock reading at the
  call. \<open>interrupted t\<close> says that the interrupt handler of \<open>processInput\<close> ran while
  control was blocked at time \<open>t\<close>. Methods of \<open>Manager\<close> defined elsewhere in the
  repository (\<open>needSquash\<close>, \<open>squashHistory\<close>, the prompts, the configuration getters,
  \<open>confirmedToExec\<close>, \<open>executeBrowserAction\<close>) are parameters, as are the prompt grammar
  and the bound of the poller.
\<close>

record Collaborators =
  interrupted :: "nat \<Rightarrow> bool"
  needSquash :: "Manager \<Rightarrow> bool"
  squashHistory :: "Manager \<Rightarrow> Manager"
  getTmuxPanesInXml :: "nat \<Rightarrow> Manager \<Rightarrow> string"
  watchPrompt :: "Manager \<Rightarrow> ChatMessage"
  chatAssistantPrompt :: "Manager \<Rightarrow> bool \<Rightarrow> ChatMessage"
  GetOpenRouterModel :: "Manager \<Rightarrow> string"
  GetResponseFromChatMessages :: "nat \<Rightarrow> ChatMessage list \<Rightarrow> string \<Rightarrow> string + string"
  jsonUnmarshalOk :: "string \<Rightarrow> bool"
  GetExecConfirm :: "Manager \<Rightarrow> bool"
  GetSendKeysConfirm :: "Manager \<Rightarrow> bool"
  GetPasteMultilineConfirm :: "Manager \<Rightarrow> bool"
  confirmedToExec :: "nat \<Rightarrow> string \<Rightarrow> string \<Rightarrow> bool \<Rightarrow> bool \<times> string"
  executeBrowserAction :: "nat \<Rightarrow> string \<Rightarrow> string + string"
  TmuxCapturePane :: "nat \<Rightarrow> string \<Rightarrow> string + string"
  promptGrammar :: PromptGrammar
  maxAttempts :: nat

text \<open>
  The interrupt handler of \<open>processInput\<close>: \<open>c.manager.Status = ""\<close>,
  \<open>c.manager.WatchMode = false\<close>.
\<close>

definition onInterrupt :: "Manager \<Rightarrow> Manager" where
  "onInterrupt m = m\<lparr>Status := [], WatchMode := False\<rparr>"

text \<open>
  A point where control blocks: the clock advances, and the interrupt handler runs if the
  signal arrived meanwhile.
\<close>

definition pause :: "Collaborators \<Rightarrow> Manager \<times> World \<Rightarrow> Manager \<times> World" where
  "pause c mw =
     (case mw of (m, w) \<Rightarrow>
        (if interrupted c (clock w) then onInterrupt m else m, w\<lparr>clock := Suc (clock w)\<rparr>))"

definition TmuxSendCommandToPane :: "string \<Rightarrow> string \<Rightarrow> bool \<Rightarrow> World \<Rightarrow> World" where
  "TmuxSendCommandToPane paneId command enter w = w\<lparr>sent := sent w @ [(paneId, command, enter)]\<rparr>"

section \<open>Pane poller: ExecWaitCapture\<close>

text \<open>
  \<open>ExecWaitCapture\<close> is not among the sources; only its tests are. It is modelled from the
  specification.
\<close>

definition trailingLine :: "string \<Rightarrow> string" where
  "trailingLine content = last (splitLines content)"

definition zeroEntry :: CommandExecHistory where
  "zeroEntry = \<lparr>Command = [], Output = [], Code = 0\<rparr>"

definition parseFailure :: string where
  "parseFailure = ''failed to parse command history''"

text \<open>
  Modelled from the spec: the bounded polling loop. Each attempt re-captures the pane and
  compares the trailing line of the capture against the prompt pattern; a match is
  completion. Otherwise the loop sleeps, ends if the session status was cleared meanwhile,
  and tries again while attempts remain. An error of the capture function ends the loop
  and is passed on. The loop returns the final capture.
\<close>

fun pollLoop ::
    "Collaborators \<Rightarrow> nat \<Rightarrow> Manager \<times> World \<Rightarrow> string \<Rightarrow> (string + string) \<times> Manager \<times> World"
where
  "pollLoop c 0 mw content = (Inr content, mw)"
| "pollLoop c (Suc k) mw content =
     (case mw of (m, w) \<Rightarrow>
        (case TmuxCapturePane c (clock w) (PaneId (ExecPane m)) of
           Inl err \<Rightarrow> (Inl err, m, w\<lparr>captures := Suc (captures w)\<rparr>)
         | Inr captured \<Rightarrow>
             (let m1 = m\<lparr>ExecPane := (ExecPane m)\<lparr>LastLine := trailingLine captured\<rparr>\<rparr>;
                  w1 = w\<lparr>captures := Suc (captures w)\<rparr>
              in if promptGrammar c (trailingLine captured) \<noteq> [] then (Inr captured, m1, w1)
                 else if Status (fst (pause c (m1, w1))) = []
                   then (Inr captured, pause c (m1, w1))
                 else pollLoop c k (pause c (m1, w1)) captured)))"

text \<open>
  Modelled from the spec: send the command with Enter once, poll, then run the transcript
  parser over the final capture. With no entry, or a most recent entry that is not the
  command just issued, the call fails with the parsing error and the zero-valued entry.
\<close>

definition ExecWaitCapture ::
    "Collaborators \<Rightarrow> string \<Rightarrow> Manager \<times> World
       \<Rightarrow> (CommandExecHistory \<times> string option) \<times> Manager \<times> World" where
  "ExecWaitCapture c command mw =
     (case mw of (m, w) \<Rightarrow>
        (case pollLoop c (maxAttempts c)
                (m, TmuxSendCommandToPane (PaneId (ExecPane m)) command True w) [] of
           (Inl err, m', w') \<Rightarrow> ((zeroEntry, Some err), m', w')
         | (Inr content, m', w') \<Rightarrow>
             (let history = parseExecPaneCommandHistoryWithContent (promptGrammar c) content
              in if history = [] \<or> Command (last history) \<noteq> command
                 then ((zeroEntry, Some parseFailure), m'\<lparr>ExecHistory := history\<rparr>, w')
                 else ((last history, None), m'\<lparr>ExecHistory := history\<rparr>, w'))))"

section \<open>Prompt preparation\<close>

text \<open>
  \<open>PrepareExecPaneWithShell\<close> is not among the sources; only its tests are. It is modelled
  from the specification, as the function from the shell argument and the pane to the
  directives sent and the warnings printed.
\<close>

datatype ShellFamily = Bash | Zsh | Fish

text \<open>
  Modelled from the spec: the three recognised shell families; the identifiers are those of
  the tests and of the completion list of \<open>/prepare\<close>.
\<close>

definition shellFamily :: "string \<Rightarrow> ShellFamily option" where
  "shellFamily name =
     (if name = ''bash'' then Some Bash
      else if name = ''zsh'' then Some Zsh
      else if name = ''fish'' then Some Fish
      else None)"

text \<open>The shared clear-screen directive; the tests expect the key \<open>C-l\<close>.\<close>

definition clearScreen :: string where
  "clearScreen = ''C-l''"

datatype Warning = UnsupportedShell string

text \<open>
  Modelled from the spec: with an explicit shell argument that shell is prepared; without
  one the shell is detected from the pane's current program, which is not possible in a
  sub-shell. A recognised family gets its set-prompt command (\<open>setPrompt\<close>, whose literal
  text the specification does not give) followed by the clear-screen directive. Anything
  else gets no directive and a warning.
\<close>

definition PrepareExecPaneWithShell ::
    "(ShellFamily \<Rightarrow> string) \<Rightarrow> TmuxPaneDetails \<Rightarrow> string \<Rightarrow> string list \<times> Warning list" where
  "PrepareExecPaneWithShell setPrompt pane shell =
     (let detected =
            (if shell \<noteq> [] then shellFamily shell
             else if IsSubShell pane then None
             else shellFamily (CurrentCommand pane))
      in case detected of
           Some family \<Rightarrow> ([setPrompt family, clearScreen], [])
         | None \<Rightarrow> ([], [UnsupportedShell (if shell \<noteq> [] then shell else CurrentCommand pane)]))"


subsection \<open>Properties of the poller and of prompt preparation\<close>

lemma pause_keeps:
  "pause c (m, w) = (m', w') \<Longrightarrow>
     sent w' = sent w \<and> browsed w' = browsed w \<and> captures w' = captures w \<and>
     ExecPane m' = ExecPane m \<and> Messages m' = Messages m \<and>
     (Status m' = Status m \<or> Status m' = [])"
  by (auto simp: pause_def onInterrupt_def)

lemma pollLoop_foreign:
  assumes never: "\<And>t. \<exists>text. TmuxCapturePane c t p = Inr text \<and> promptGrammar c text = []
                        \<and> promptGrammar c (trailingLine text) = []"
    and pane: "PaneId (ExecPane m) = p"
    and start: "k = 0 \<Longrightarrow> promptGrammar c content = []"
  shows "\<exists>text m' w'. pollLoop c k (m, w) content = (Inr text, m', w') \<and>
           promptGrammar c text = [] \<and> sent w' = sent w \<and>
           (captures w' = captures w + k \<or> Status m' = [])"
  using pane start
proof (induction k arbitrary: m w content)
  case 0
  then show ?case by simp
next
  case (Suc k)
  from never [of "clock w"] Suc.prems(1) obtain captured where
    cap: "TmuxCapturePane c (clock w) (PaneId (ExecPane m)) = Inr captured" and
    none: "promptGrammar c captured = []" and
    last: "promptGrammar c (trailingLine captured) = []"
    by auto
  define m1 where "m1 = m\<lparr>ExecPane := (ExecPane m)\<lparr>LastLine := trailingLine captured\<rparr>\<rparr>"
  define w1 where "w1 = w\<lparr>captures := Suc (captures w)\<rparr>"
  obtain m2 w2 where p: "pause c (m1, w1) = (m2, w2)" by (cases "pause c (m1, w1)")
  from pause_keeps [OF p] have keep: "sent w2 = sent w" "captures w2 = Suc (captures w)"
    "PaneId (ExecPane m2) = p"
    using Suc.prems(1) by (simp_all add: m1_def w1_def)
  have step: "pollLoop c (Suc k) (m, w) content =
      (if Status m2 = [] then (Inr captured, m2, w2) else pollLoop c k (m2, w2) captured)"
    using cap last p by (simp add: m1_def w1_def Let_def)
  show ?case
  proof (cases "Status m2 = []")
    case True
    with step none keep show ?thesis by simp
  next
    case False
    from Suc.IH [OF keep(3), of captured w2] none obtain final m' w' where
      "pollLoop c k (m2, w2) captured = (Inr final, m', w')" "promptGrammar c final = []"
      "sent w' = sent w2" "captures w' = captures w2 + k \<or> Status m' = []"
      by blast
    with step False keep show ?thesis by auto
  qed
qed

text \<open>
  C2. When no capture of the pane ever matches the prompt pattern, \<open>ExecWaitCapture\<close> sends
  the command with Enter exactly once, polls until the bound on attempts is used up or the
  session status has been cleared, and returns the parsing error with the zero-valued
  entry.
\<close>

theorem ExecWaitCapture_foreign_prompt:
  assumes "\<And>t. \<exists>text. TmuxCapturePane c t (PaneId (ExecPane m)) = Inr text
                   \<and> promptGrammar c text = []
                   \<and> promptGrammar c (trailingLine text) = []"
    and "0 < maxAttempts c"
  shows "\<exists>m' w'. ExecWaitCapture c command (m, w) = ((zeroEntry, Some parseFailure), m', w') \<and>
           sent w' = sent w @ [(PaneId (ExecPane m), command, True)] \<and>
           (captures w' = captures w + maxAttempts c \<or> Status m' = [])"
proof -
  let ?w1 = "TmuxSendCommandToPane (PaneId (ExecPane m)) command True w"
  from assms(2) have "maxAttempts c = 0 \<Longrightarrow> promptGrammar c [] = []" by simp
  from pollLoop_foreign [where c = c and p = "PaneId (ExecPane m)" and m = m and w = ?w1
      and k = "maxAttempts c" and content = "[]", OF assms(1) refl this]
  obtain final m' w' where
    poll: "pollLoop c (maxAttempts c) (m, ?w1) [] = (Inr final, m', w')" and
    none: "promptGrammar c final = []" and
    sent: "sent w' = sent ?w1" and
    bound: "captures w' = captures ?w1 + maxAttempts c \<or> Status m' = []"
    by blast
  from none have "parseExecPaneCommandHistoryWithContent (promptGrammar c) final = []"
    by (simp add: parseExecPaneCommandHistoryWithContent_def)
  with poll have "ExecWaitCapture c command (m, w) =
      ((zeroEntry, Some parseFailure), m'\<lparr>ExecHistory := []\<rparr>, w')"
    by (simp add: ExecWaitCapture_def)
  with sent bound show ?thesis
    by (simp add: TmuxSendCommandToPane_def)
qed

text \<open>
  C8. For each of the three recognised shell families \<open>PrepareExecPaneWithShell\<close> emits
  exactly two directives, the family's set-prompt command and then the clear-screen
  directive. For an unrecognised shell identifier, and with no shell given on a pane whose
  current program is not a supported shell, it emits no directive and a warning.
\<close>

theorem prepare_directives:
  "shellFamily ''bash'' = Some Bash \<and> shellFamily ''zsh'' = Some Zsh \<and>
   shellFamily ''fish'' = Some Fish \<and>
   (\<forall>family. shellFamily shell = Some family \<longrightarrow>
      PrepareExecPaneWithShell setPrompt pane shell = ([setPrompt family, clearScreen], [])) \<and>
   (shell \<noteq> [] \<and> shellFamily shell = None \<longrightarrow>
      fst (PrepareExecPaneWithShell setPrompt pane shell) = [] \<and>
      snd (PrepareExecPaneWithShell setPrompt pane shell) \<noteq> []) \<and>
   (shell = [] \<and> shellFamily (CurrentCommand pane) = None \<longrightarrow>
      fst (PrepareExecPaneWithShell setPrompt pane shell) = [] \<and>
      snd (PrepareExecPaneWithShell setPrompt pane shell) \<noteq> [])"
  by (auto simp: PrepareExecPaneWithShell_def shellFamily_def split: if_splits)

section \<open>Turn orchestrator: ProcessUserMessage\<close>

text \<open>
  A stage of the turn either returns from \<open>ProcessUserMessage\<close> with a result, or lets
  the turn go on.
\<close>

datatype flow = Return bool "Manager \<times> World" | Next "Manager \<times> World"

text \<open>The statement \<open>m.Status = ""\<close>.\<close>

definition clearStatus :: "Manager \<times> World \<Rightarrow> Manager \<times> World" where
  "clearStatus mw = (case mw of (m, w) \<Rightarrow> (m\<lparr>Status := []\<rparr>, w))"

text \<open>
  Sending to the exec pane followed by \<open>time.Sleep(1 * time.Second)\<close>.
\<close>

definition sendAndSleep :: "Collaborators \<Rightarrow> string \<Rightarrow> bool \<Rightarrow> Manager \<times> World \<Rightarrow> Manager \<times> World" where
  "sendAndSleep c command enter mw =
     (case mw of (m, w) \<Rightarrow>
        pause c (m, TmuxSendCommandToPane (PaneId (ExecPane m)) command enter w))"

text \<open>
  A call of \<open>confirmedToExec\<close>: the user's answer, and the state after waiting for it.
\<close>

definition askUser ::
    "Collaborators \<Rightarrow> string \<Rightarrow> string \<Rightarrow> bool \<Rightarrow> Manager \<times> World
       \<Rightarrow> (bool \<times> string) \<times> Manager \<times> World" where
  "askUser c command prompt edit mw =
     (confirmedToExec c (clock (snd mw)) command prompt edit, pause c mw)"

text \<open>The body of the loop over \<open>r.ExecCommand\<close>, once the command is confirmed.\<close>

definition executeCommand :: "Collaborators \<Rightarrow> string \<Rightarrow> Manager \<times> World \<Rightarrow> Manager \<times> World" where
  "executeCommand c command mw =
     (if IsPrepared (ExecPane (fst mw)) then snd (ExecWaitCapture c command mw)
      else sendAndSleep c command True mw)"

fun execCommands :: "Collaborators \<Rightarrow> string list \<Rightarrow> Manager \<times> World \<Rightarrow> flow" where
  "execCommands c [] mw = Next mw"
| "execCommands c (execCommand # rest) mw =
     (if GetExecConfirm c (fst mw) then
        (case askUser c execCommand ''Execute this command?'' True mw of
           ((isSafe, command), mw1) \<Rightarrow>
             if isSafe then execCommands c rest (executeCommand c command mw1)
             else Return False (clearStatus mw1))
      else execCommands c rest (executeCommand c execCommand mw))"

fun sendEachKey :: "Collaborators \<Rightarrow> string list \<Rightarrow> Manager \<times> World \<Rightarrow> Manager \<times> World" where
  "sendEachKey c [] mw = mw"
| "sendEachKey c (sendKey # rest) mw = sendEachKey c rest (sendAndSleep c sendKey False mw)"

text \<open>
  The \<open>SendKeys\<close> block. The preview loop reads \<open>m.Status\<close> once per key and nothing in
  that loop blocks, so the model reads it once.
\<close>

definition processSendKeys :: "Collaborators \<Rightarrow> AIResponse \<Rightarrow> Manager \<times> World \<Rightarrow> flow" where
  "processSendKeys c r mw =
     (if length (SendKeys r) > 0 then
        (if Status (fst mw) = [] then Return False mw
         else
           (let confirmMessage =
                  (if length (SendKeys r) > 1 then ''Send all these keys?'' else ''Send this key?'')
            in if GetSendKeysConfirm c (fst mw) then
                 (case askUser c ''keys shown above'' confirmMessage True mw of
                    ((allConfirmed, edited), mw1) \<Rightarrow>
                      if \<not> allConfirmed then Return False (clearStatus mw1)
                      else Next (sendEachKey c (SendKeys r) mw1))
               else Next (sendEachKey c (SendKeys r) mw)))
      else Next mw)"

text \<open>Performing the browser action, which blocks, and recording it.\<close>

definition performBrowserAction ::
    "Collaborators \<Rightarrow> string \<Rightarrow> Manager \<times> World \<Rightarrow> (string + string) \<times> Manager \<times> World" where
  "performBrowserAction c action mw =
     (case mw of (m, w) \<Rightarrow>
        (executeBrowserAction c (clock w) action,
         pause c (m, w\<lparr>browsed := browsed w @ [action]\<rparr>)))"

definition processBrowserAction :: "Collaborators \<Rightarrow> AIResponse \<Rightarrow> Manager \<times> World \<Rightarrow> flow" where
  "processBrowserAction c r mw =
     (if BrowserAction r \<noteq> [] then
        (case (if GetExecConfirm c (fst mw)
               then (case askUser c (BrowserAction r) ''Perform this browser action?'' False mw of
                       ((isSafe, edited), mw1) \<Rightarrow> (isSafe, mw1))
               else (True, mw)) of
           (isSafe, mw1) \<Rightarrow>
             if isSafe then
               (case performBrowserAction c (BrowserAction r) mw1 of
                  (Inl err, mw2) \<Rightarrow> Return False (clearStatus mw2)
                | (Inr result, mw2) \<Rightarrow> Next mw2)
             else Return False (clearStatus mw1))
      else Next mw)"

definition processPaste :: "Collaborators \<Rightarrow> AIResponse \<Rightarrow> Manager \<times> World \<Rightarrow> flow" where
  "processPaste c r mw =
     (if PasteMultilineContent r \<noteq> [] then
        (case (if GetPasteMultilineConfirm c (fst mw)
               then (case askUser c (PasteMultilineContent r) ''Paste multiline content?'' False mw of
                       ((isSafe, edited), mw1) \<Rightarrow> (isSafe, mw1))
               else (True, mw)) of
           (isSafe, mw1) \<Rightarrow>
             if isSafe then Next (sendAndSleep c (PasteMultilineContent r) True mw1)
             else Return False (clearStatus mw1))
      else Next mw)"

text \<open>The first lines of the function: squashing the history when the context is full.\<close>

definition squashIfNeeded :: "Collaborators \<Rightarrow> Manager \<Rightarrow> Manager" where
  "squashIfNeeded c m = (if needSquash c m then squashHistory c m else m)"

definition execPaneEnv :: "Manager \<Rightarrow> string" where
  "execPaneEnv m =
     (if \<not> IsSubShell (ExecPane m)
      then ''Keep in mind, you are working within the shell: '' @ Shell (ExecPane m)
           @ '' and OS: '' @ OS (ExecPane m)
      else [])"

definition currentMessage :: "Collaborators \<Rightarrow> Manager \<Rightarrow> World \<Rightarrow> string \<Rightarrow> ChatMessage" where
  "currentMessage c m w message =
     \<lparr>Content = getTmuxPanesInXml c (clock w) m @ [CHR 0x0A, CHR 0x0A] @ execPaneEnv m
                 @ [CHR 0x0A, CHR 0x0A] @ message,
      FromUser = True, Timestamp = clock w\<rparr>"

definition sending :: "Collaborators \<Rightarrow> Manager \<Rightarrow> World \<Rightarrow> string \<Rightarrow> ChatMessage list" where
  "sending c m w message =
     (let history =
            (if WatchMode m then [watchPrompt c m]
             else if IsPrepared (ExecPane m) then [chatAssistantPrompt c m True]
             else [chatAssistantPrompt c m False]);
          history = history @ Messages m
      in history @ [currentMessage c m w message])"

definition responseMsg :: "string \<Rightarrow> World \<Rightarrow> ChatMessage" where
  "responseMsg response w = \<lparr>Content = response, FromUser = False, Timestamp = clock w\<rparr>"

definition appendMessages :: "ChatMessage list \<Rightarrow> Manager \<times> World \<Rightarrow> Manager \<times> World" where
  "appendMessages msgs mw = (case mw of (m, w) \<Rightarrow> (m\<lparr>Messages := Messages m @ msgs\<rparr>, w))"

text \<open>
  The body of \<open>ProcessUserMessage\<close> is written in the pieces below, last statements
  first. \<open>self\<close> stands for the function itself in its recursive calls. A result is
  \<open>None\<close> when a recursive call does not return.
\<close>

type_synonym turn = "(bool \<times> Manager \<times> World) option"

text \<open>The end of the function, from \<open>if r.RequestAccomplished\<close> on.\<close>

definition finishTurn ::
    "(Manager \<times> World \<Rightarrow> string \<Rightarrow> turn) \<Rightarrow> AIResponse \<Rightarrow> Manager \<times> World \<Rightarrow> turn" where
  "finishTurn self r mw =
     (if RequestAccomplished r then Some (True, clearStatus mw)
      else if WaitingForUserResponse r
        then Some (False, (fst mw)\<lparr>Status := ''waiting''\<rparr>, snd mw)
      else if NoComment r then Some (False, mw)
      else if \<not> WatchMode (fst mw) then
        (case self mw ''sending updated pane(s) content'' of
           None \<Rightarrow> None
         | Some (accomplished, mw') \<Rightarrow>
             if accomplished then Some (True, mw') else Some (False, mw'))
      else Some (False, mw))"

text \<open>The paste block, and then the end of the function.\<close>

definition pasteAndFinish ::
    "Collaborators \<Rightarrow> (Manager \<times> World \<Rightarrow> string \<Rightarrow> turn) \<Rightarrow> AIResponse
       \<Rightarrow> Manager \<times> World \<Rightarrow> turn" where
  "pasteAndFinish c self r mw =
     (case processPaste c r mw of
        Return b mw' \<Rightarrow> Some (b, mw')
      | Next mw' \<Rightarrow> finishTurn self r mw')"

text \<open>
  The block \<open>if r.ExecPaneSeemsBusy\<close>: the countdown, the recursive call with a fresh
  context, and the rest of the function when that call did not accomplish the request.
\<close>

definition waitIfBusy ::
    "Collaborators \<Rightarrow> (Manager \<times> World \<Rightarrow> string \<Rightarrow> turn) \<Rightarrow> AIResponse
       \<Rightarrow> Manager \<times> World \<Rightarrow> turn" where
  "waitIfBusy c self r mw =
     (if ExecPaneSeemsBusy r then
        (case self (pause c mw)
                ''waited for 5 more seconds, here is the current pane(s) content'' of
           None \<Rightarrow> None
         | Some (accomplished, mw') \<Rightarrow>
             if accomplished then Some (True, mw') else pasteAndFinish c self r mw')
      else pasteAndFinish c self r mw)"

text \<open>The three action blocks in front of it: commands, keys, browser action.\<close>

definition performActions :: "Collaborators \<Rightarrow> AIResponse \<Rightarrow> Manager \<times> World \<Rightarrow> flow" where
  "performActions c r mw =
     (case execCommands c (ExecCommand r) mw of
        Return b mw' \<Rightarrow> Return b mw'
      | Next mw1 \<Rightarrow>
          (case processSendKeys c r mw1 of
             Return b mw' \<Rightarrow> Return b mw'
           | Next mw2 \<Rightarrow> processBrowserAction c r mw2))"

text \<open>
  From \<open>aiFollowedGuidelines\<close> on; \<open>exchange\<close> is the pair \<open>currentMessage, responseMsg\<close>.
\<close>

definition handleResponse ::
    "Collaborators \<Rightarrow> (Manager \<times> World \<Rightarrow> string \<Rightarrow> turn) \<Rightarrow> ChatMessage list \<Rightarrow> AIResponse
       \<Rightarrow> Manager \<times> World \<Rightarrow> turn" where
  "handleResponse c self exchange r mw =
     (case aiFollowedGuidelines (fst mw) r of
        (guidelineError, validResponse) \<Rightarrow>
          if \<not> validResponse then self (appendMessages exchange mw) guidelineError
          else
            (case performActions c r
                    (if ExecPaneSeemsBusy r \<or> NoComment r then mw
                     else appendMessages exchange mw) of
               Return b mw' \<Rightarrow> Some (b, mw')
             | Next mw' \<Rightarrow> waitIfBusy c self r mw'))"

text \<open>The function from its first line to the parsed response.\<close>

definition ProcessUserMessage_body ::
    "Collaborators \<Rightarrow> (Manager \<times> World \<Rightarrow> string \<Rightarrow> turn) \<Rightarrow> Manager \<times> World \<Rightarrow> string \<Rightarrow> turn" where
  "ProcessUserMessage_body c self mw0 message =
     (case mw0 of (m0, w) \<Rightarrow>
        (let m = squashIfNeeded c m0 in
         if Status m = [] then Some (False, m, w)
         else
           (case GetResponseFromChatMessages c (clock w) (sending c m w message)
                   (GetOpenRouterModel c m) of
              Inl err \<Rightarrow> Some (False, clearStatus (pause c (m, w)))
            | Inr response \<Rightarrow>
                (let mw = pause c (m, w) in
                 if Status (fst mw) = [] then Some (False, mw)
                 else
                   (case parseAIResponse (jsonUnmarshalOk c) response of
                      Inl err \<Rightarrow> Some (False, clearStatus mw)
                    | Inr r \<Rightarrow>
                        handleResponse c self
                          [currentMessage c m w message, responseMsg response (snd mw)] r mw)))))"

text \<open>
  The recursion has no depth limit and ends only when the model sets a terminal flag, so
  the function is defined with a bound on the depth of recursion: \<open>None\<close> means that the
  call did not return within \<open>n\<close> nested turns.
\<close>

primrec ProcessUserMessage ::
    "nat \<Rightarrow> Collaborators \<Rightarrow> Manager \<times> World \<Rightarrow> string \<Rightarrow> turn" where
  "ProcessUserMessage 0 c = (\<lambda>mw message. None)"
| "ProcessUserMessage (Suc n) c = ProcessUserMessage_body c (ProcessUserMessage n c)"

subsection \<open>The action blocks only ever return false\<close>

lemma execCommands_Return: "execCommands c cmds mw = Return b mw' \<Longrightarrow> \<not> b"
proof (induction cmds arbitrary: mw)
  case Nil
  then show ?case by simp
next
  case (Cons execCommand rest)
  show ?case
  proof (cases "GetExecConfirm c (fst mw)")
    case False
    with Cons.prems have "execCommands c rest (executeCommand c execCommand mw) = Return b mw'"
      by simp
    then show ?thesis by (rule Cons.IH)
  next
    case True
    obtain isSafe command mw1 where
      ask: "askUser c execCommand ''Execute this command?'' True mw = ((isSafe, command), mw1)"
      by (cases "askUser c execCommand ''Execute this command?'' True mw") auto
    show ?thesis
    proof (cases isSafe)
      case True
      with \<open>GetExecConfirm c (fst mw)\<close> ask Cons.prems
      have "execCommands c rest (executeCommand c command mw1) = Return b mw'"
        by simp
      then show ?thesis by (rule Cons.IH)
    next
      case False
      with \<open>GetExecConfirm c (fst mw)\<close> ask Cons.prems show ?thesis by simp
    qed
  qed
qed

lemma processSendKeys_Return: "processSendKeys c r mw = Return b mw' \<Longrightarrow> \<not> b"
  by (auto simp: processSendKeys_def Let_def split: if_splits prod.splits)

lemma processBrowserAction_Return: "processBrowserAction c r mw = Return b mw' \<Longrightarrow> \<not> b"
  by (auto simp: processBrowserAction_def split: if_splits prod.splits sum.splits)

lemma processPaste_Return: "processPaste c r mw = Return b mw' \<Longrightarrow> \<not> b"
  by (auto simp: processPaste_def split: if_splits prod.splits)

lemma performActions_Return: "performActions c r mw = Return b mw' \<Longrightarrow> \<not> b"
  by (auto simp: performActions_def split: flow.splits
      dest: execCommands_Return processSendKeys_Return processBrowserAction_Return)

subsection \<open>Returning true\<close>

text \<open>
  \<open>clearsStatus self\<close>: whenever \<open>self\<close> returns true, the status it leaves is empty.
\<close>

definition clearsStatus :: "(Manager \<times> World \<Rightarrow> string \<Rightarrow> turn) \<Rightarrow> bool" where
  "clearsStatus self =
     (\<forall>mw message m' w'. self mw message = Some (True, m', w') \<longrightarrow> Status m' = [])"

lemma clearsStatusD:
  "clearsStatus self \<Longrightarrow> self mw message = Some (True, m', w') \<Longrightarrow> Status m' = []"
  unfolding clearsStatus_def by blast

lemma finishTurn_true:
  assumes "clearsStatus self" and "finishTurn self r mw = Some (True, m', w')"
  shows "Status m' = []"
proof (cases "RequestAccomplished r")
  case True
  with assms(2) show ?thesis
    by (cases mw) (auto simp: finishTurn_def clearStatus_def)
next
  case False
  with assms(2) have "self mw ''sending updated pane(s) content'' = Some (True, m', w')"
    by (auto simp: finishTurn_def split: if_splits option.splits)
  with assms(1) show ?thesis by (rule clearsStatusD)
qed

lemma pasteAndFinish_true:
  assumes "clearsStatus self" and "pasteAndFinish c self r mw = Some (True, m', w')"
  shows "Status m' = []"
proof (cases "processPaste c r mw")
  case (Return b mw')
  with assms(2) processPaste_Return [OF Return] show ?thesis
    by (simp add: pasteAndFinish_def)
next
  case (Next mw')
  with assms(2) have "finishTurn self r mw' = Some (True, m', w')"
    by (simp add: pasteAndFinish_def)
  with assms(1) show ?thesis by (rule finishTurn_true)
qed

lemma waitIfBusy_true:
  assumes "clearsStatus self" and "waitIfBusy c self r mw = Some (True, m', w')"
  shows "Status m' = []"
proof (cases "ExecPaneSeemsBusy r")
  case False
  with assms(2) have "pasteAndFinish c self r mw = Some (True, m', w')"
    by (simp add: waitIfBusy_def)
  with assms(1) show ?thesis by (rule pasteAndFinish_true)
next
  case True
  with assms(2) obtain accomplished mw1 where
    call: "self (pause c mw)
             ''waited for 5 more seconds, here is the current pane(s) content''
           = Some (accomplished, mw1)"
    and rest: "(if accomplished then Some (True, mw1) else pasteAndFinish c self r mw1)
           = Some (True, m', w')"
    by (auto simp: waitIfBusy_def split: option.splits)
  show ?thesis
  proof (cases accomplished)
    case True
    with call rest assms(1) show ?thesis by (auto dest: clearsStatusD)
  next
    case False
    with rest assms(1) show ?thesis by (auto dest: pasteAndFinish_true)
  qed
qed

lemma handleResponse_true:
  assumes "clearsStatus self" and "handleResponse c self exchange r mw = Some (True, m', w')"
  shows "Status m' = []"
proof (cases "snd (aiFollowedGuidelines (fst mw) r)")
  case False
  with assms(2) have
    "self (appendMessages exchange mw) (fst (aiFollowedGuidelines (fst mw) r))
       = Some (True, m', w')"
    by (simp add: handleResponse_def split: prod.splits)
  with assms(1) show ?thesis by (rule clearsStatusD)
next
  case True
  let ?mw = "if ExecPaneSeemsBusy r \<or> NoComment r then mw else appendMessages exchange mw"
  show ?thesis
  proof (cases "performActions c r ?mw")
    case (Return b mw')
    with assms(2) True performActions_Return [OF Return] show ?thesis
      by (simp add: handleResponse_def split: prod.splits)
  next
    case (Next mw')
    with assms(2) True have "waitIfBusy c self r mw' = Some (True, m', w')"
      by (simp add: handleResponse_def split: prod.splits)
    with assms(1) show ?thesis by (rule waitIfBusy_true)
  qed
qed

lemma ProcessUserMessage_body_true:
  assumes "clearsStatus self"
    and "ProcessUserMessage_body c self mw message = Some (True, m', w')"
  shows "Status m' = []"
proof -
  obtain m0 w where mw: "mw = (m0, w)" by (cases mw)
  from assms(2) obtain exchange r mw1 where
    "handleResponse c self exchange r mw1 = Some (True, m', w')"
    unfolding ProcessUserMessage_body_def mw
    by (auto simp: Let_def split: if_splits sum.splits)
  with assms(1) show ?thesis by (rule handleResponse_true)
qed

lemma ProcessUserMessage_clearsStatus: "clearsStatus (ProcessUserMessage n c)"
proof (induction n)
  case 0
  show ?case by (simp add: clearsStatus_def)
next
  case (Suc n)
  show ?case
    unfolding clearsStatus_def
  proof (intro allI impI)
    fix mw message m' w'
    assume "ProcessUserMessage (Suc n) c mw message = Some (True, m', w')"
    then have "ProcessUserMessage_body c (ProcessUserMessage n c) mw message
                 = Some (True, m', w')"
      by simp
    with Suc.IH show "Status m' = []" by (rule ProcessUserMessage_body_true)
  qed
qed

lemma ProcessUserMessage_chat_error:
  assumes "Status (squashIfNeeded c m) \<noteq> []"
    and "GetResponseFromChatMessages c (clock w) (sending c (squashIfNeeded c m) w message)
           (GetOpenRouterModel c (squashIfNeeded c m)) = Inl err"
  shows "ProcessUserMessage (Suc n) c (m, w) message
           = Some (False, clearStatus (pause c (squashIfNeeded c m, w)))"
  using assms by (simp add: ProcessUserMessage_body_def Let_def)

text \<open>
  C7. When the chat request fails, by a transport error or because the user cancelled it,
  the turn stops with the result false, the session status is cleared to idle, nothing has
  been appended to the chat history (it is what the squash step left), and nothing was sent
  to a pane or to the browser.
\<close>

theorem chat_failure_stops_turn:
  assumes "Status (squashIfNeeded c m) \<noteq> []"
    and "GetResponseFromChatMessages c (clock w) (sending c (squashIfNeeded c m) w message)
           (GetOpenRouterModel c (squashIfNeeded c m)) = Inl err"
  shows "\<exists>m' w'. ProcessUserMessage (Suc n) c (m, w) message = Some (False, m', w') \<and>
           Status m' = [] \<and>
           Messages m' = Messages (squashIfNeeded c m) \<and>
           (\<not> needSquash c m \<longrightarrow> Messages m' = Messages m) \<and>
           sent w' = sent w \<and> browsed w' = browsed w"
proof -
  obtain m1 w1 where p: "pause c (squashIfNeeded c m, w) = (m1, w1)"
    by (cases "pause c (squashIfNeeded c m, w)")
  from ProcessUserMessage_chat_error [OF assms] p
  have "ProcessUserMessage (Suc n) c (m, w) message = Some (False, m1\<lparr>Status := []\<rparr>, w1)"
    by (simp add: clearStatus_def)
  with pause_keeps [OF p] show ?thesis
    by (auto simp: squashIfNeeded_def)
qed

text \<open>
  C4, as the code has it. When the validator rejects a reply, the outbound message and the
  rejected reply are appended to the chat history, no action of the rejected response is
  executed (nothing is sent to a pane or to the browser and no capture is taken), and the
  function calls itself at once with the corrective message as the next input.
\<close>

theorem guideline_violation_retries:
  assumes "Status (squashIfNeeded c m) \<noteq> []"
    and "GetResponseFromChatMessages c (clock w) (sending c (squashIfNeeded c m) w message)
           (GetOpenRouterModel c (squashIfNeeded c m)) = Inr response"
    and "pause c (squashIfNeeded c m, w) = (m1, w1)"
    and "Status m1 \<noteq> []"
    and "parseAIResponse (jsonUnmarshalOk c) response = Inr r"
    and "aiFollowedGuidelines m1 r = (guidelineError, False)"
  shows "ProcessUserMessage (Suc n) c (m, w) message =
           ProcessUserMessage n c
             (m1\<lparr>Messages := Messages m1 @
                  [currentMessage c (squashIfNeeded c m) w message, responseMsg response w1]\<rparr>,
              w1)
             guidelineError
         \<and> Messages m1 = Messages (squashIfNeeded c m)
         \<and> sent w1 = sent w \<and> browsed w1 = browsed w \<and> captures w1 = captures w"
  using assms pause_keeps [OF assms(3)]
  by (simp add: ProcessUserMessage_body_def Let_def handleResponse_def appendMessages_def)

text \<open>
  C9. Whenever \<open>ProcessUserMessage\<close> returns true the session status is empty. Every
  \<open>return true\<close> is either the one that follows \<open>m.Status = ""\<close> or passes on the
  true of a recursive call, so this holds at every depth of recursion: after a busy
  re-probe, a guideline correction and the probe outside watch mode.
\<close>

theorem accomplished_clears_status:
  "ProcessUserMessage n c mw message = Some (True, m', w') \<Longrightarrow> Status m' = []"
  using ProcessUserMessage_clearsStatus [of n c] by (rule clearsStatusD)

subsection \<open>The depth bound\<close>

text \<open>
  A larger bound on the depth of recursion never changes a result: a call that returns
  within \<open>n\<close> nested turns returns the same within any larger number.
\<close>

definition extends :: "(Manager \<times> World \<Rightarrow> string \<Rightarrow> turn) \<Rightarrow> (Manager \<times> World \<Rightarrow> string \<Rightarrow> turn) \<Rightarrow> bool" where
  "extends self self' = (\<forall>mw message res. self mw message = Some res \<longrightarrow> self' mw message = Some res)"

lemma extendsD: "extends self self' \<Longrightarrow> self mw message = Some res \<Longrightarrow> self' mw message = Some res"
  unfolding extends_def by blast

lemma finishTurn_extends:
  assumes "extends self self'" and "finishTurn self r mw = Some res"
  shows "finishTurn self' r mw = Some res"
  using assms(2) extendsD [OF assms(1), of mw "''sending updated pane(s) content''"]
  by (auto simp: finishTurn_def split: if_splits option.splits)

lemma pasteAndFinish_extends:
  assumes "extends self self'" and "pasteAndFinish c self r mw = Some res"
  shows "pasteAndFinish c self' r mw = Some res"
proof (cases "processPaste c r mw")
  case (Return b mw')
  with assms(2) show ?thesis by (simp add: pasteAndFinish_def)
next
  case (Next mw')
  with assms(2) have "finishTurn self r mw' = Some res" by (simp add: pasteAndFinish_def)
  from finishTurn_extends [OF assms(1) this] Next show ?thesis
    by (simp add: pasteAndFinish_def)
qed

lemma waitIfBusy_extends:
  assumes "extends self self'" and "waitIfBusy c self r mw = Some res"
  shows "waitIfBusy c self' r mw = Some res"
proof (cases "ExecPaneSeemsBusy r")
  case False
  with assms(2) have "pasteAndFinish c self r mw = Some res" by (simp add: waitIfBusy_def)
  from pasteAndFinish_extends [OF assms(1) this] False show ?thesis
    by (simp add: waitIfBusy_def)
next
  case True
  let ?probe = "''waited for 5 more seconds, here is the current pane(s) content''"
  from True assms(2) obtain accomplished mw1 where
    call: "self (pause c mw) ?probe = Some (accomplished, mw1)" and
    rest: "(if accomplished then Some (True, mw1) else pasteAndFinish c self r mw1) = Some res"
    by (auto simp: waitIfBusy_def split: option.splits)
  from extendsD [OF assms(1) call]
  have call': "self' (pause c mw) ?probe = Some (accomplished, mw1)" .
  show ?thesis
  proof (cases accomplished)
    case True
    with rest call' \<open>ExecPaneSeemsBusy r\<close> show ?thesis by (auto simp: waitIfBusy_def)
  next
    case False
    with rest have "pasteAndFinish c self r mw1 = Some res" by simp
    from pasteAndFinish_extends [OF assms(1) this] False call' \<open>ExecPaneSeemsBusy r\<close>
    show ?thesis by (simp add: waitIfBusy_def)
  qed
qed

lemma handleResponse_extends:
  assumes "extends self self'" and "handleResponse c self exchange r mw = Some res"
  shows "handleResponse c self' exchange r mw = Some res"
proof -
  obtain guidelineError validResponse where
    v: "aiFollowedGuidelines (fst mw) r = (guidelineError, validResponse)"
    by (cases "aiFollowedGuidelines (fst mw) r")
  show ?thesis
  proof (cases validResponse)
    case False
    with v assms(2) have "self (appendMessages exchange mw) guidelineError = Some res"
      by (simp add: handleResponse_def)
    from extendsD [OF assms(1) this] v False show ?thesis
      by (simp add: handleResponse_def)
  next
    case True
    let ?mw = "if ExecPaneSeemsBusy r \<or> NoComment r then mw else appendMessages exchange mw"
    show ?thesis
    proof (cases "performActions c r ?mw")
      case (Return b mw')
      with v True assms(2) show ?thesis by (simp add: handleResponse_def)
    next
      case (Next mw')
      with v True assms(2) have "waitIfBusy c self r mw' = Some res"
        by (simp add: handleResponse_def)
      from waitIfBusy_extends [OF assms(1) this] v True Next show ?thesis
        by (simp add: handleResponse_def)
    qed
  qed
qed

lemma ProcessUserMessage_body_extends:
  assumes "extends self self'" and "ProcessUserMessage_body c self mw message = Some res"
  shows "ProcessUserMessage_body c self' mw message = Some res"
proof -
  obtain m0 w where mw: "mw = (m0, w)" by (cases mw)
  let ?m = "squashIfNeeded c m0"
  let ?reply = "GetResponseFromChatMessages c (clock w) (sending c ?m w message)
                  (GetOpenRouterModel c ?m)"
  show ?thesis
  proof (cases "Status ?m = []")
    case True
    with assms(2) show ?thesis by (simp add: ProcessUserMessage_body_def mw Let_def)
  next
    case running: False
    show ?thesis
    proof (cases ?reply)
      case (Inl err)
      with running assms(2) show ?thesis by (simp add: ProcessUserMessage_body_def mw Let_def)
    next
      case (Inr response)
      show ?thesis
      proof (cases "Status (fst (pause c (?m, w))) = []")
        case True
        with running Inr assms(2) show ?thesis
          by (simp add: ProcessUserMessage_body_def mw Let_def)
      next
        case still: False
        show ?thesis
        proof (cases "parseAIResponse (jsonUnmarshalOk c) response")
          case (Inl err)
          with running Inr still assms(2) show ?thesis
            by (simp add: ProcessUserMessage_body_def mw Let_def)
        next
          case parsed: (Inr r)
          let ?exchange = "[currentMessage c ?m w message,
                            responseMsg response (snd (pause c (?m, w)))]"
          from running Inr still parsed assms(2)
          have "handleResponse c self ?exchange r (pause c (?m, w)) = Some res"
            by (simp add: ProcessUserMessage_body_def mw Let_def)
          from handleResponse_extends [OF assms(1) this] running Inr still parsed
          show ?thesis by (simp add: ProcessUserMessage_body_def mw Let_def)
        qed
      qed
    qed
  qed
qed

lemma ProcessUserMessage_Suc_extends:
  "extends (ProcessUserMessage n c) (ProcessUserMessage (Suc n) c)"
proof (induction n)
  case 0
  show ?case by (simp add: extends_def)
next
  case (Suc n)
  show ?case
    unfolding extends_def
  proof (intro allI impI)
    fix mw message res
    assume "ProcessUserMessage (Suc n) c mw message = Some res"
    then have "ProcessUserMessage_body c (ProcessUserMessage n c) mw message = Some res"
      by simp
    from ProcessUserMessage_body_extends [OF Suc.IH this]
    show "ProcessUserMessage (Suc (Suc n)) c mw message = Some res" by simp
  qed
qed

lemma ProcessUserMessage_more_depth:
  "ProcessUserMessage n c mw message = Some res \<Longrightarrow>
   ProcessUserMessage (n + k) c mw message = Some res"
proof (induction k)
  case 0
  then show ?case by simp
next
  case (Suc k)
  from extendsD [OF ProcessUserMessage_Suc_extends Suc.IH [OF Suc.prems]]
  show ?case by simp
qed

section \<open>Example sessions\<close>

text \<open>
  A pane running bash, not prepared; a session in the state \<open>processInput\<close> leaves it in
  when it calls \<open>ProcessUserMessage\<close>; and collaborators that never interrupt, never
  squash, ask for no confirmation and answer the chat request at time \<open>t\<close> with \<open>chat t\<close>.
  The JSON decoder is the one of the standard library.
\<close>

definition demoPane :: TmuxPaneDetails where
  "demoPane = \<lparr>PaneId = ''%1'', CurrentCommand = ''bash'', LastLine = [], IsPrepared = False,
     IsSubShell = False, Shell = ''bash'', OS = ''linux''\<rparr>"

definition demoManager :: Manager where
  "demoManager = \<lparr>Status = ''running'', WatchMode = False, Messages = [], ExecPane = demoPane,
     ExecHistory = []\<rparr>"

definition demoWorld :: World where
  "demoWorld = \<lparr>clock = 0, captures = 0, sent = [], browsed = []\<rparr>"

definition systemPrompt :: ChatMessage where
  "systemPrompt = \<lparr>Content = ''system'', FromUser = False, Timestamp = 0\<rparr>"

definition demoCollaborators :: "(nat \<Rightarrow> string + string) \<Rightarrow> Collaborators" where
  "demoCollaborators chat =
     \<lparr>interrupted = (\<lambda>t. False),
      needSquash = (\<lambda>m. False),
      squashHistory = (\<lambda>m. m),
      getTmuxPanesInXml = (\<lambda>t m. ''<pane/>''),
      watchPrompt = (\<lambda>m. systemPrompt),
      chatAssistantPrompt = (\<lambda>m prepared. systemPrompt),
      GetOpenRouterModel = (\<lambda>m. ''model''),
      GetResponseFromChatMessages = (\<lambda>t msgs model. chat t),
      jsonUnmarshalOk = jsonUnmarshalMap,
      GetExecConfirm = (\<lambda>m. False),
      GetSendKeysConfirm = (\<lambda>m. False),
      GetPasteMultilineConfirm = (\<lambda>m. False),
      confirmedToExec = (\<lambda>t command prompt edit. (True, command)),
      executeBrowserAction = (\<lambda>t action. Inr ''ok''),
      TmuxCapturePane = (\<lambda>t pane. Inr foreignCapture),
      promptGrammar = canonicalPrompts,
      maxAttempts = 3\<rparr>"

definition failingChat :: "nat \<Rightarrow> string + string" where
  "failingChat t = Inl ''connection refused''"

definition untaggedThenDone :: "nat \<Rightarrow> string + string" where
  "untaggedThenDone t =
     (if t = 0 then Inr ''hello'' else Inr ''<RequestAccomplished>1</RequestAccomplished>'')"

definition busyThenDone :: "nat \<Rightarrow> string + string" where
  "busyThenDone t =
     (if t = 0 then Inr ''<ExecPaneSeemsBusy>1</ExecPaneSeemsBusy>''
      else Inr ''<RequestAccomplished>1</RequestAccomplished>'')"

lemmas demo_defs = demoCollaborators_def demoManager_def demoWorld_def demoPane_def
  systemPrompt_def squashIfNeeded_def pause_def onInterrupt_def clearStatus_def

lemmas parse_defs = parseAIResponse_fields FindAllStringSubmatch.simps FindStringSubmatch_def
  openTag_def closeTag_def Contains_def

lemmas turn_defs = ProcessUserMessage_body_def handleResponse_def performActions_def
  waitIfBusy_def pasteAndFinish_def finishTurn_def processSendKeys_def
  processBrowserAction_def processPaste_def appendMessages_def Let_def

theorem chat_failure_stops_turn_witness:
  "\<exists>m' w'. ProcessUserMessage (Suc 0) (demoCollaborators failingChat) (demoManager, demoWorld)
              ''list the files'' = Some (False, m', w') \<and>
     Status m' = [] \<and> Messages m' = Messages demoManager \<and>
     sent w' = sent demoWorld \<and> browsed w' = browsed demoWorld"
proof -
  have s: "Status (squashIfNeeded (demoCollaborators failingChat) demoManager) \<noteq> []"
    by (simp add: demo_defs)
  have e: "GetResponseFromChatMessages (demoCollaborators failingChat) (clock demoWorld)
       (sending (demoCollaborators failingChat)
          (squashIfNeeded (demoCollaborators failingChat) demoManager) demoWorld
          ''list the files'')
       (GetOpenRouterModel (demoCollaborators failingChat)
          (squashIfNeeded (demoCollaborators failingChat) demoManager))
     = Inl ''connection refused''"
    by (simp add: demoCollaborators_def failingChat_def)
  have n: "\<not> needSquash (demoCollaborators failingChat) demoManager"
    by (simp add: demoCollaborators_def)
  from chat_failure_stops_turn [OF s e, of 0] obtain m' w' where
    "ProcessUserMessage (Suc 0) (demoCollaborators failingChat) (demoManager, demoWorld)
       ''list the files'' = Some (False, m', w')"
    "Status m' = []"
    "\<not> needSquash (demoCollaborators failingChat) demoManager \<longrightarrow>
       Messages m' = Messages demoManager"
    "sent w' = sent demoWorld" "browsed w' = browsed demoWorld"
    by (elim exE conjE) (rule that)
  with n show ?thesis by (intro exI [of _ m'] exI [of _ w'] conjI) simp_all
qed

lemma hello_rejected:
  "parseAIResponse jsonUnmarshalMap ''hello'' = Inr (emptyAIResponse\<lparr>Message := ''hello''\<rparr>)"
  "aiFollowedGuidelines demoManager (emptyAIResponse\<lparr>Message := ''hello''\<rparr>)
     = (msgAtLeastOneTag, False)"
  by (simp_all add: parse_defs emptyAIResponse_def aiFollowedGuidelines_def demoManager_def)

lemma untagged_run:
  "ProcessUserMessage (Suc (Suc 0)) (demoCollaborators untaggedThenDone)
     (demoManager, demoWorld) ''hi''
   = Some (True,
       demoManager\<lparr>Status := [],
         Messages :=
           [currentMessage (demoCollaborators untaggedThenDone) demoManager demoWorld ''hi'',
            responseMsg ''hello'' (demoWorld\<lparr>clock := 1\<rparr>),
            currentMessage (demoCollaborators untaggedThenDone) demoManager
              (demoWorld\<lparr>clock := 1\<rparr>) msgAtLeastOneTag,
            responseMsg ''<RequestAccomplished>1</RequestAccomplished>''
              (demoWorld\<lparr>clock := 2\<rparr>)]\<rparr>,
       demoWorld\<lparr>clock := 2\<rparr>)"
  by (simp add: turn_defs demo_defs parse_defs untaggedThenDone_def aiFollowedGuidelines_def
      currentMessage_def responseMsg_def sending_def execPaneEnv_def)


text \<open>
  C4 as the claim states it fails: the reply \<open>hello\<close> carries no tag and no flag and is
  rejected, and when the session ends the chat history holds the outbound message and the
  rejected reply, followed by the corrective exchange.
\<close>

theorem guideline_violation_appends_counterexample:
  "parseAIResponse (jsonUnmarshalOk (demoCollaborators untaggedThenDone)) ''hello''
     = Inr (emptyAIResponse\<lparr>Message := ''hello''\<rparr>)
   \<and> aiFollowedGuidelines demoManager (emptyAIResponse\<lparr>Message := ''hello''\<rparr>)
     = (msgAtLeastOneTag, False)
   \<and> Messages demoManager = []
   \<and> ProcessUserMessage (Suc (Suc 0)) (demoCollaborators untaggedThenDone)
       (demoManager, demoWorld) ''hi''
     = Some (True,
         demoManager\<lparr>Status := [],
           Messages :=
             [currentMessage (demoCollaborators untaggedThenDone) demoManager demoWorld ''hi'',
              responseMsg ''hello'' (demoWorld\<lparr>clock := 1\<rparr>),
              currentMessage (demoCollaborators untaggedThenDone) demoManager
                (demoWorld\<lparr>clock := 1\<rparr>) msgAtLeastOneTag,
              responseMsg ''<RequestAccomplished>1</RequestAccomplished>''
                (demoWorld\<lparr>clock := 2\<rparr>)]\<rparr>,
         demoWorld\<lparr>clock := 2\<rparr>)"
  using hello_rejected untagged_run
  by (simp add: demoCollaborators_def demoManager_def)

theorem guideline_violation_retries_witness:
  "ProcessUserMessage (Suc (Suc 0)) (demoCollaborators untaggedThenDone)
       (demoManager, demoWorld) ''hi''
     = ProcessUserMessage (Suc 0) (demoCollaborators untaggedThenDone)
         (demoManager\<lparr>Messages := Messages demoManager @
             [currentMessage (demoCollaborators untaggedThenDone) demoManager demoWorld ''hi'',
              responseMsg ''hello'' (demoWorld\<lparr>clock := 1\<rparr>)]\<rparr>,
          demoWorld\<lparr>clock := 1\<rparr>)
         msgAtLeastOneTag
   \<and> sent (demoWorld\<lparr>clock := 1\<rparr>) = sent demoWorld
   \<and> browsed (demoWorld\<lparr>clock := 1\<rparr>) = browsed demoWorld
   \<and> captures (demoWorld\<lparr>clock := 1\<rparr>) = captures demoWorld"
proof -
  let ?c = "demoCollaborators untaggedThenDone"
  have sq: "squashIfNeeded ?c demoManager = demoManager"
    by (simp add: demo_defs)
  have s: "Status (squashIfNeeded ?c demoManager) \<noteq> []"
    by (simp add: demo_defs)
  have e: "GetResponseFromChatMessages ?c (clock demoWorld)
       (sending ?c (squashIfNeeded ?c demoManager) demoWorld ''hi'')
       (GetOpenRouterModel ?c (squashIfNeeded ?c demoManager)) = Inr ''hello''"
    by (simp add: demoCollaborators_def untaggedThenDone_def demoWorld_def)
  have p: "pause ?c (squashIfNeeded ?c demoManager, demoWorld)
             = (demoManager, demoWorld\<lparr>clock := 1\<rparr>)"
    by (simp add: demo_defs)
  have r: "Status demoManager \<noteq> []"
    by (simp add: demoManager_def)
  have q: "parseAIResponse (jsonUnmarshalOk ?c) ''hello''
             = Inr (emptyAIResponse\<lparr>Message := ''hello''\<rparr>)"
    using hello_rejected(1) by (simp add: demoCollaborators_def)
  from guideline_violation_retries [OF s e p r q hello_rejected(2), of 1]
  show ?thesis by (simp add: sq)
qed

lemma busy_run:
  "ProcessUserMessage (Suc (Suc 0)) (demoCollaborators busyThenDone)
     (demoManager, demoWorld) ''run the build''
   = Some (True,
       demoManager\<lparr>Status := [],
         Messages :=
           [currentMessage (demoCollaborators busyThenDone) demoManager
              (demoWorld\<lparr>clock := 2\<rparr>)
              ''waited for 5 more seconds, here is the current pane(s) content'',
            responseMsg ''<RequestAccomplished>1</RequestAccomplished>''
              (demoWorld\<lparr>clock := 3\<rparr>)]\<rparr>,
       demoWorld\<lparr>clock := 3\<rparr>)"
  by (simp add: turn_defs demo_defs parse_defs busyThenDone_def aiFollowedGuidelines_def
      currentMessage_def responseMsg_def sending_def execPaneEnv_def)

theorem accomplished_clears_status_witness:
  "ProcessUserMessage (Suc (Suc 0)) (demoCollaborators busyThenDone)
     (demoManager, demoWorld) ''run the build''
   = Some (True,
       demoManager\<lparr>Status := [],
         Messages :=
           [currentMessage (demoCollaborators busyThenDone) demoManager
              (demoWorld\<lparr>clock := 2\<rparr>)
              ''waited for 5 more seconds, here is the current pane(s) content'',
            responseMsg ''<RequestAccomplished>1</RequestAccomplished>''
              (demoWorld\<lparr>clock := 3\<rparr>)]\<rparr>,
       demoWorld\<lparr>clock := 3\<rparr>)
   \<and> Status (demoManager\<lparr>Status := [],
         Messages :=
           [currentMessage (demoCollaborators busyThenDone) demoManager
              (demoWorld\<lparr>clock := 2\<rparr>)
              ''waited for 5 more seconds, here is the current pane(s) content'',
            responseMsg ''<RequestAccomplished>1</RequestAccomplished>''
              (demoWorld\<lparr>clock := 3\<rparr>)]\<rparr>) = []"
  using accomplished_clears_status [OF busy_run] busy_run by (rule_tac conjI)

text \<open>The session of the test \<open>TestExecWaitCapture_SSHScenario\<close>.\<close>

definition sshManager :: Manager where
  "sshManager = demoManager\<lparr>ExecPane :=
     demoPane\<lparr>PaneId := ''ssh-pane'', LastLine := ''user@remote-server:~$ ''\<rparr>\<rparr>"

lemma canonicalPrompts_foreign_trailingLine:
  "canonicalPrompts (trailingLine foreignCapture) = []"
  by (simp add: canonicalPrompts_def foreignCapture_def trailingLine_def promptInLine_def
      delimiter_def)

theorem ExecWaitCapture_foreign_prompt_witness:
  "\<exists>m' w'. ExecWaitCapture (demoCollaborators failingChat) ''ls -la'' (sshManager, demoWorld)
              = ((zeroEntry, Some parseFailure), m', w') \<and>
     sent w' = [(''ssh-pane'', ''ls -la'', True)] \<and>
     (captures w' = 3 \<or> Status m' = [])"
proof -
  let ?c = "demoCollaborators failingChat"
  have never: "\<exists>text. TmuxCapturePane ?c t (PaneId (ExecPane sshManager)) = Inr text
                 \<and> promptGrammar ?c text = []
                 \<and> promptGrammar ?c (trailingLine text) = []" for t
    using canonicalPrompts_foreignCapture canonicalPrompts_foreign_trailingLine
    by (simp add: demoCollaborators_def)
  have bound: "0 < maxAttempts ?c"
    by (simp add: demoCollaborators_def)
  from ExecWaitCapture_foreign_prompt [of ?c sshManager, OF never bound, of "''ls -la''" demoWorld]
  show ?thesis
    by (simp add: demoCollaborators_def sshManager_def demoWorld_def demoPane_def)
qed

definition examplePrompts :: "ShellFamily \<Rightarrow> string" where
  "examplePrompts family =
     (case family of
        Bash \<Rightarrow> ''PS1=<template>''
      | Zsh \<Rightarrow> ''PROMPT=<template>''
      | Fish \<Rightarrow> ''function fish_prompt; <template>; end'')"

theorem prepare_directives_witness:
  "PrepareExecPaneWithShell examplePrompts demoPane ''zsh''
     = ([examplePrompts Zsh, clearScreen], [])
   \<and> fst (PrepareExecPaneWithShell examplePrompts demoPane ''tcsh'') = []
   \<and> snd (PrepareExecPaneWithShell examplePrompts demoPane ''tcsh'') \<noteq> []
   \<and> fst (PrepareExecPaneWithShell examplePrompts (demoPane\<lparr>CurrentCommand := ''unknown''\<rparr>) [])
       = []
   \<and> snd (PrepareExecPaneWithShell examplePrompts (demoPane\<lparr>CurrentCommand := ''unknown''\<rparr>) [])
       \<noteq> []"
proof -
  have z: "shellFamily ''zsh'' = Some Zsh" and t: "shellFamily ''tcsh'' = None"
    and u: "shellFamily (CurrentCommand (demoPane\<lparr>CurrentCommand := ''unknown''\<rparr>)) = None"
    by (simp_all add: shellFamily_def)
  from prepare_directives [of "''zsh''" examplePrompts demoPane] z
  have a: "PrepareExecPaneWithShell examplePrompts demoPane ''zsh''
     = ([examplePrompts Zsh, clearScreen], [])"
    by simp
  from prepare_directives [of "''tcsh''" examplePrompts demoPane] t
  have b: "fst (PrepareExecPaneWithShell examplePrompts demoPane ''tcsh'') = []
     \<and> snd (PrepareExecPaneWithShell examplePrompts demoPane ''tcsh'') \<noteq> []"
    by simp
  from prepare_directives [of "[]" examplePrompts "demoPane\<lparr>CurrentCommand := ''unknown''\<rparr>"] u
  have c: "fst (PrepareExecPaneWithShell examplePrompts
                  (demoPane\<lparr>CurrentCommand := ''unknown''\<rparr>) []) = []
     \<and> snd (PrepareExecPaneWithShell examplePrompts
                  (demoPane\<lparr>CurrentCommand := ''unknown''\<rparr>) []) \<noteq> []"
    by simp
  from a b c show ?thesis by simp
qed

text \<open>The run of the test \<open>TestExecWaitCapture_SuccessfulExecution\<close>.\<close>

definition successfulCapture :: string where
  \<open>successfulCapture =
     ''user@hostname:~[14:30][0]'' @ delimiter @ '' echo "test successful"
test successful
user@hostname:~[14:31][0]'' @ delimiter @ '' ''\<close>

lemma ExecWaitCapture_successful:
  \<open>fst (ExecWaitCapture
          ((demoCollaborators failingChat)\<lparr>TmuxCapturePane := (\<lambda>t pane. Inr successfulCapture)\<rparr>)
          ''echo "test successful"'' (demoManager, demoWorld))
     = (\<lparr>Command = ''echo "test successful"'', Output = ''test successful'', Code = 0\<rparr>, None)\<close>
  by (simp add: ExecWaitCapture_def demo_defs TmuxSendCommandToPane_def successfulCapture_def
      trailingLine_def numeral_3_eq_3
      parseExecPaneCommandHistoryWithContent_def canonicalPrompts_def
      promptInLine_def delimiter_def statusOfPrompt_def isDigit_def slice_def emitEntry_def
      commandOf_def outputOf_def isBlank_def TrimSpace_def TrimLeftSpace.simps
      TrimRightSpace.simps leadingSpace_def trailingSpace_def spaceEncodings_def
      suffix_to_prefix Let_def)

text \<open>
  A reply whose \<open>BrowserAction\<close> tag holds \<open>null\<close>: the content passes the validation of
  \<open>parseAIResponse\<close>, the validator counts one action kind, and the turn performs the
  browser action \<open>null\<close>.
\<close>

definition nullAction :: "nat \<Rightarrow> string + string" where
  "nullAction t =
     Inr ''<BrowserAction>null</BrowserAction><RequestAccomplished>1</RequestAccomplished>''"

lemma null_action_run:
  "ProcessUserMessage (Suc 0) (demoCollaborators nullAction) (demoManager, demoWorld)
     ''open the page''
   = Some (True,
       demoManager\<lparr>Status := [],
         Messages :=
           [currentMessage (demoCollaborators nullAction) demoManager demoWorld
              ''open the page'',
            responseMsg
              ''<BrowserAction>null</BrowserAction><RequestAccomplished>1</RequestAccomplished>''
              (demoWorld\<lparr>clock := 1\<rparr>)]\<rparr>,
       demoWorld\<lparr>clock := 2, browsed := [''null'']\<rparr>)"
  by (simp add: turn_defs demo_defs parse_defs nullAction_def aiFollowedGuidelines_def
      currentMessage_def responseMsg_def sending_def execPaneEnv_def performBrowserAction_def
      TrimSpace_null jsonUnmarshalMap_examples)

end
